theory Spec2Isabelle
  imports Main "HOL-Library.AList" "HOL-Library.Sublist" "HOL-Library.Word"
begin

section \<open>The eSignBase client (index.js) as a shallow embedding\<close>

text \<open>
  JavaScript strings are modelled as \<^typ>\<open>string\<close>, read as their UTF-8 bytes, except
  for the identifiers given to \<^verbatim>\<open>encodeURIComponent\<close>, which are lists of UTF-16 code
  units, since that function throws on an ill-formed one. A value that
  may be \<^verbatim>\<open>undefined\<close> is an \<^typ>\<open>'a option\<close>. Promises are flattened: an
  \<^verbatim>\<open>async\<close> method is a function from the state before the call to its outcome
  (\<open>Inl\<close> the thrown error, \<open>Inr\<close> the resolved value) and the state after it.
\<close>

subsection \<open>Enums\<close>

definition GrantType_CLIENT_CREDENTIALS :: string where
  "GrantType_CLIENT_CREDENTIALS = ''client_credentials''"

definition GrantType_AUTHORIZATION_CODE :: string where
  "GrantType_AUTHORIZATION_CODE = ''authorization_code''"

text \<open>\<^verbatim>\<open>Object.values(GrantType)\<close>\<close>

definition GrantType_values :: "string list" where
  "GrantType_values = [GrantType_CLIENT_CREDENTIALS, GrantType_AUTHORIZATION_CODE]"

text \<open>\<^verbatim>\<open>Object.values(Scope)\<close>\<close>

definition Scope_values :: "string list" where
  "Scope_values = [''all'', ''read'', ''create_document'', ''delete'', ''sandbox'']"

subsection \<open>JSON and JavaScript values\<close>

text \<open>
  Decoded JSON. Numbers are restricted to integers that print in plain decimal; an object
  is the list of its own properties, each key once.
\<close>

datatype json =
    JNull
  | JBool bool
  | JNum int
  | JStr string
  | JArr "json list"
  | JObj "(string \<times> json) list"

text \<open>What a private field or a property read can hold: \<^verbatim>\<open>undefined\<close> or a value.\<close>

datatype jsval = Undefined | Val json

text \<open>The decimal digits of a number, as \<^verbatim>\<open>String(n)\<close> prints an integer.\<close>

definition digit_char :: "nat \<Rightarrow> char" where
  "digit_char n = ''0123456789'' ! n"

fun string_of_nat :: "nat \<Rightarrow> string" where
  "string_of_nat n =
     (if n < 10 then [digit_char n]
      else string_of_nat (n div 10) @ [digit_char (n mod 10)])"

declare string_of_nat.simps [simp del]

definition string_of_int :: "int \<Rightarrow> string" where
  "string_of_int i = (if i < 0 then CHR ''-'' # string_of_nat (nat (- i)) else string_of_nat (nat i))"

fun join :: "string \<Rightarrow> string list \<Rightarrow> string" where
  "join sep [] = []"
| "join sep [x] = x"
| "join sep (x # y # ys) = x @ sep @ join sep (y # ys)"

text \<open>
  \<^verbatim>\<open>String(v)\<close>, as a template literal applies it. An array joins its elements with
  commas, \<^verbatim>\<open>null\<close> elements giving the empty string.
\<close>

fun json_to_string :: "json \<Rightarrow> string" where
  "json_to_string JNull = ''null''"
| "json_to_string (JBool b) = (if b then ''true'' else ''false'')"
| "json_to_string (JNum i) = string_of_int i"
| "json_to_string (JStr s) = s"
| "json_to_string (JArr xs) =
     join '','' (map (\<lambda>x. if x = JNull then [] else json_to_string x) xs)"
| "json_to_string (JObj kvs) = ''[object Object]''"

fun js_to_string :: "jsval \<Rightarrow> string" where
  "js_to_string Undefined = ''undefined''"
| "js_to_string (Val v) = json_to_string v"

text \<open>\<^verbatim>\<open>!!v\<close>\<close>

fun truthy :: "jsval \<Rightarrow> bool" where
  "truthy Undefined = False"
| "truthy (Val JNull) = False"
| "truthy (Val (JBool b)) = b"
| "truthy (Val (JNum i)) = (i \<noteq> 0)"
| "truthy (Val (JStr s)) = (s \<noteq> [])"
| "truthy (Val (JArr xs)) = True"
| "truthy (Val (JObj kvs)) = True"

text \<open>\<^verbatim>\<open>!s\<close> for an optional string: \<^verbatim>\<open>undefined\<close> and \<^verbatim>\<open>''\<close> are falsy.\<close>

fun falsy :: "string option \<Rightarrow> bool" where
  "falsy None = True"
| "falsy (Some s) = (s = [])"

subsection \<open>Errors\<close>

text \<open>
  \<open>ESignBaseSDKError message statusCode\<close> is the SDK's own error class, \<open>None\<close> its
  default \<^verbatim>\<open>statusCode = null\<close>. The others are what the runtime throws
  through the SDK unwrapped: a rejected \<^verbatim>\<open>fetch\<close> (network failure or abort),
  a rejected \<^verbatim>\<open>response.json()\<close>, a property read on \<^verbatim>\<open>null\<close> or
  \<^verbatim>\<open>undefined\<close> (also the null body \<^verbatim>\<open>Readable.fromWeb\<close> refuses),
  \<^verbatim>\<open>toISOString\<close> on an invalid date, and \<^verbatim>\<open>encodeURIComponent\<close> on a
  string with a lone surrogate. Their messages are
  the runtime's, cut down to the part that does not depend on the operands.
\<close>

datatype error =
    ESignBaseSDKError string "nat option"
  | FetchRejected
  | JsonRejected
  | TypeError
  | RangeError
  | URIError

fun message :: "error \<Rightarrow> string" where
  "message (ESignBaseSDKError m sc) = m"
| "message FetchRejected = ''fetch failed''"
| "message JsonRejected = ''Unexpected token''"
| "message TypeError = ''Cannot read properties''"
| "message RangeError = ''Invalid time value''"
| "message URIError = ''URI malformed''"

fun statusCode :: "error \<Rightarrow> nat option" where
  "statusCode (ESignBaseSDKError m sc) = sc"
| "statusCode e = None"

subsection \<open>The client and its constructor\<close>

record ctor_options =
  opt_clientId :: "string option"
  opt_clientSecret :: "string option"
  opt_grantType :: "string option"
  opt_scope :: "string list option"
  opt_username :: "string option"
  opt_password :: "string option"
  opt_baseURL :: "string option"

record client =
  baseURL :: string
  clientId :: string
  clientSecret :: string
  grantType :: string
  username :: "string option"
  password :: "string option"
  scope :: "string list"
  accessToken :: jsval

text \<open>\<^verbatim>\<open>s.endsWith(suf)\<close>\<close>

definition endsWith :: "string \<Rightarrow> string \<Rightarrow> bool" where
  "endsWith s suf \<longleftrightarrow> length suf \<le> length s \<and> drop (length s - length suf) s = suf"

text \<open>\<^verbatim>\<open>xs.includes(x)\<close>\<close>

definition array_includes :: "string list \<Rightarrow> string \<Rightarrow> bool" where
  "array_includes xs x \<longleftrightarrow> x \<in> set xs"

definition default_baseURL :: string where
  "default_baseURL = ''https://app.esignbase.com/''"

text \<open>The baseURL stored by the last statement of the constructor.\<close>

definition normalize_baseURL :: "string \<Rightarrow> string" where
  "normalize_baseURL b = (if endsWith b ''/'' then b else b @ ''/'')"

text \<open>
  The constructor, check by check in the order of the source. A \<open>case\<close> on an optional
  argument gives the \<open>None\<close> branch (\<^verbatim>\<open>undefined\<close>) the error of the check that
  rejects it, so the value is only used once it is known to be there.
\<close>

definition constructor :: "ctor_options \<Rightarrow> error + client" where
  "constructor opts =
    (case opt_clientId opts of
       None \<Rightarrow> Inl (ESignBaseSDKError ''Client ID is required'' None)
     | Some cid \<Rightarrow>
    if cid = [] then Inl (ESignBaseSDKError ''Client ID is required'' None) else
    (case opt_clientSecret opts of
       None \<Rightarrow> Inl (ESignBaseSDKError ''Client secret is required'' None)
     | Some secret \<Rightarrow>
    if secret = [] then Inl (ESignBaseSDKError ''Client secret is required'' None) else
    (case opt_grantType opts of
       None \<Rightarrow> Inl (ESignBaseSDKError ''Grant type is required'' None)
     | Some gt \<Rightarrow>
    if gt = [] then Inl (ESignBaseSDKError ''Grant type is required'' None) else
    (case opt_scope opts of
       None \<Rightarrow> Inl (ESignBaseSDKError ''At least one scope must be provided'' None)
     | Some sc \<Rightarrow>
    if length sc = 0 then Inl (ESignBaseSDKError ''At least one scope must be provided'' None)
    else if \<not> array_includes GrantType_values gt
      then Inl (ESignBaseSDKError ''Invalid grant type'' None)
    else if \<not> list_all (\<lambda>s. array_includes Scope_values s) sc
      then Inl (ESignBaseSDKError ''Invalid scope value provided'' None)
    else if gt = GrantType_AUTHORIZATION_CODE
            \<and> (falsy (opt_username opts) \<or> falsy (opt_password opts))
      then Inl (ESignBaseSDKError
                 ''Username and password are required for authorization_code grant type'' None)
    else Inr \<lparr> baseURL = normalize_baseURL
                  (case opt_baseURL opts of None \<Rightarrow> default_baseURL | Some b \<Rightarrow> b),
               clientId = cid,
               clientSecret = secret,
               grantType = gt,
               username = opt_username opts,
               password = opt_password opts,
               scope = sc,
               accessToken = Val JNull \<rparr>))))"

text \<open>\<^verbatim>\<open>get isConnected()\<close>\<close>

definition isConnected :: "client \<Rightarrow> bool" where
  "isConnected c = truthy (accessToken c)"

subsection \<open>The transport\<close>

text \<open>
  \<^verbatim>\<open>fetch\<close> is the environment. A request body is either the form the token exchange
  sends or the text \<^verbatim>\<open>JSON.stringify\<close> produced, kept as the value it encodes. A call
  records the URL and the init object; \<open>fc_timeout\<close> is the delay after which the call's
  abort signal fires.
\<close>

datatype body = URLSearchParams "(string \<times> string) list" | JSON_text json

record fetch_call =
  fc_url :: string
  fc_method :: string
  fc_headers :: "(string \<times> string) list"
  fc_body :: "body option"
  fc_timeout :: nat

text \<open>
  A response as the client reads it: the \<^verbatim>\<open>ok\<close> flag, the status, what
  \<^verbatim>\<open>text()\<close> and \<^verbatim>\<open>json()\<close> resolve to (\<open>None\<close> when they reject) and the raw body,
  \<open>None\<close> for the \<^verbatim>\<open>null\<close> body of a response without content.
\<close>

record response =
  resp_ok :: bool
  resp_status :: nat
  resp_text :: "string option"
  resp_json :: "json option"
  resp_body :: "string option"

text \<open>
  The transport answers a call given the calls made before it; \<open>None\<close> is a rejected
  \<^verbatim>\<open>fetch\<close> (network failure, or the abort signal). The state threaded through the
  client's methods is the client object and the log of calls made so far.
\<close>

type_synonym transport = "fetch_call list \<Rightarrow> fetch_call \<Rightarrow> response option"

type_synonym state = "client \<times> fetch_call list"

definition fetch :: "transport \<Rightarrow> fetch_call \<Rightarrow> fetch_call list \<Rightarrow> response option \<times> fetch_call list" where
  "fetch T call log = (T log call, log @ [call])"

subsection \<open>Private helpers\<close>

definition handleResponse :: "response \<Rightarrow> error + response" where
  "handleResponse r =
    (if \<not> resp_ok r
     then Inl (ESignBaseSDKError
                (case resp_text r of Some m \<Rightarrow> m | None \<Rightarrow> ''Unknown error'')
                (Some (resp_status r)))
     else Inr r)"

text \<open>\<^verbatim>\<open>await response.json()\<close>\<close>

definition response_json :: "response \<Rightarrow> error + json" where
  "response_json r = (case resp_json r of None \<Rightarrow> Inl JsonRejected | Some v \<Rightarrow> Inr v)"

text \<open>
  \<^verbatim>\<open>data.access_token\<close>: reading a property of \<^verbatim>\<open>null\<close> throws, an object
  without the property and a primitive or an array give \<^verbatim>\<open>undefined\<close>.
\<close>

fun access_token :: "json \<Rightarrow> error + jsval" where
  "access_token JNull = Inl TypeError"
| "access_token (JObj kvs) =
     Inr (case map_of kvs ''access_token'' of None \<Rightarrow> Undefined | Some v \<Rightarrow> Val v)"
| "access_token v = Inr Undefined"

text \<open>
  Standard base64 with padding over the bytes of the string
  (\<^verbatim>\<open>Buffer.from(s).toString('base64')\<close>).
\<close>

definition base64_char :: "nat \<Rightarrow> char" where
  "base64_char n =
     ''ABCDEFGHIJKLMNOPQRSTUVWXYZabcdefghijklmnopqrstuvwxyz0123456789+/'' ! n"

fun base64_bytes :: "nat list \<Rightarrow> string" where
  "base64_bytes (a # b # c # rest) =
     [base64_char (a div 4), base64_char ((a mod 4) * 16 + b div 16),
      base64_char ((b mod 16) * 4 + c div 64), base64_char (c mod 64)] @ base64_bytes rest"
| "base64_bytes [a, b] =
     [base64_char (a div 4), base64_char ((a mod 4) * 16 + b div 16),
      base64_char ((b mod 16) * 4), CHR ''='']"
| "base64_bytes [a] =
     [base64_char (a div 4), base64_char ((a mod 4) * 16), CHR ''='', CHR ''='']"
| "base64_bytes [] = []"

definition base64 :: "string \<Rightarrow> string" where
  "base64 s = base64_bytes (map of_char s)"

text \<open>
  \<^verbatim>\<open>{ ...obj, ...src }\<close>: every property of \<open>src\<close> is written over \<open>obj\<close> in order,
  replacing the value of a key already there and appending a new key.
\<close>

fun spread :: "(string \<times> string) list \<Rightarrow> (string \<times> string) list \<Rightarrow> (string \<times> string) list" where
  "spread obj [] = obj"
| "spread obj ((k, v) # src) = spread (AList.update k v obj) src"

text \<open>\<^verbatim>\<open>path.replace(/^\//, '')\<close>\<close>

fun strip_leading_slash :: "string \<Rightarrow> string" where
  "strip_leading_slash [] = []"
| "strip_leading_slash (c # cs) = (if c = CHR ''/'' then cs else c # cs)"

text \<open>\<^verbatim>\<open>String(v)\<close> for an optional string, as \<^verbatim>\<open>URLSearchParams.append\<close> applies it.\<close>

fun string_of_opt :: "string option \<Rightarrow> string" where
  "string_of_opt None = ''undefined''"
| "string_of_opt (Some s) = s"

subsection \<open>connect\<close>

definition token_call :: "client \<Rightarrow> fetch_call" where
  "token_call c =
    (let authString = base64 (clientId c @ '':'' @ clientSecret c);
         params = [(''grant_type'', grantType c), (''scope'', join '' '' (scope c))];
         params' = (if grantType c = GrantType_AUTHORIZATION_CODE
                    then params @ [(''username'', string_of_opt (username c)),
                                   (''password'', string_of_opt (password c))]
                    else params)
     in \<lparr> fc_url = baseURL c @ ''oauth2/token'',
          fc_method = ''POST'',
          fc_headers = [(''Authorization'', ''Basic '' @ authString),
                        (''Content-Type'', ''application/x-www-form-urlencoded'')],
          fc_body = Some (URLSearchParams params'),
          fc_timeout = 15000 \<rparr>)"

definition connect :: "transport \<Rightarrow> state \<Rightarrow> (error + unit) \<times> state" where
  "connect T s =
    (case s of (c, log) \<Rightarrow>
      (case fetch T (token_call c) log of
         (None, log') \<Rightarrow> (Inl FetchRejected, (c, log'))
       | (Some r, log') \<Rightarrow>
          (case handleResponse r of
             Inl e \<Rightarrow> (Inl e, (c, log'))
           | Inr _ \<Rightarrow>
              (case response_json r of
                 Inl e \<Rightarrow> (Inl e, (c, log'))
               | Inr data \<Rightarrow>
                  (case access_token data of
                     Inl e \<Rightarrow> (Inl e, (c, log'))
                   | Inr tok \<Rightarrow> (Inr (), (c\<lparr>accessToken := tok\<rparr>, log')))))))"

subsection \<open>The request pipeline\<close>

record request_options =
  ro_headers :: "(string \<times> string) list option"
  ro_body :: "body option"
  ro_timeout :: "nat option"

text \<open>The default \<^verbatim>\<open>options = {}\<close>.\<close>

definition no_options :: request_options where
  "no_options = \<lparr> ro_headers = None, ro_body = None, ro_timeout = None \<rparr>"

text \<open>The init object \<^verbatim>\<open>executeFetch\<close> builds; the token is read when it runs.\<close>

definition dispatch_call :: "client \<Rightarrow> string \<Rightarrow> string \<Rightarrow> request_options \<Rightarrow> fetch_call" where
  "dispatch_call c url method options =
    \<lparr> fc_url = url,
      fc_method = method,
      fc_headers = spread [(''Authorization'', ''Bearer '' @ js_to_string (accessToken c))]
                     (case ro_headers options of None \<Rightarrow> [] | Some h \<Rightarrow> h),
      fc_body = ro_body options,
      fc_timeout = (case ro_timeout options of None \<Rightarrow> 15000
                    | Some t \<Rightarrow> if t = 0 then 15000 else t) \<rparr>"

definition executeFetch ::
  "transport \<Rightarrow> string \<Rightarrow> string \<Rightarrow> request_options \<Rightarrow> state \<Rightarrow> (error + response) \<times> state" where
  "executeFetch T url method options s =
    (case s of (c, log) \<Rightarrow>
      (case fetch T (dispatch_call c url method options) log of
         (None, log') \<Rightarrow> (Inl FetchRejected, (c, log'))
       | (Some r, log') \<Rightarrow> (Inr r, (c, log'))))"

definition request ::
  "transport \<Rightarrow> string \<Rightarrow> string \<Rightarrow> request_options \<Rightarrow> bool \<Rightarrow> state \<Rightarrow> (error + response) \<times> state" where
  "request T method path options retry s =
    (if \<not> isConnected (fst s)
     then (Inl (ESignBaseSDKError ''Client is not connected. Call connect() first.'' None), s)
     else
      (let url = baseURL (fst s) @ strip_leading_slash path in
       (case executeFetch T url method options s of
          (Inl e, s1) \<Rightarrow> (Inl e, s1)
        | (Inr response, s1) \<Rightarrow>
           if resp_status response = 401 \<and> retry
           then (case connect T s1 of
                   (Inl e, s2) \<Rightarrow> (Inl e, s2)
                 | (Inr _, s2) \<Rightarrow>
                    (case executeFetch T url method options s2 of
                       (Inl e, s3) \<Rightarrow> (Inl e, s3)
                     | (Inr response', s3) \<Rightarrow> (handleResponse response', s3)))
           else (handleResponse response, s1))))"

subsection \<open>Runtime functions the public methods use\<close>

text \<open>
  \<^verbatim>\<open>encodeURIComponent\<close> reads its argument code unit by code unit. An unreserved
  character stays; any other code point becomes the \<^verbatim>\<open>%XX\<close> escapes of its UTF-8
  bytes, a high surrogate taking the low surrogate after it to form the code point; a
  surrogate without its partner throws a URIError.
\<close>

type_synonym js_string = "16 word list"

definition unreserved_chars :: string where
  "unreserved_chars =
     ''ABCDEFGHIJKLMNOPQRSTUVWXYZabcdefghijklmnopqrstuvwxyz0123456789-_.!~*()'' @ [CHR 0x27]"

definition hex_digit :: "nat \<Rightarrow> char" where
  "hex_digit n = ''0123456789ABCDEF'' ! n"

definition percent :: "nat \<Rightarrow> string" where
  "percent b = [CHR ''%'', hex_digit (b div 16), hex_digit (b mod 16)]"

definition utf8 :: "nat \<Rightarrow> nat list" where
  "utf8 cp =
    (if cp < 0x80 then [cp]
     else if cp < 0x800 then [0xC0 + cp div 64, 0x80 + cp mod 64]
     else if cp < 0x10000 then [0xE0 + cp div 4096, 0x80 + cp div 64 mod 64, 0x80 + cp mod 64]
     else [0xF0 + cp div 262144, 0x80 + cp div 4096 mod 64, 0x80 + cp div 64 mod 64,
           0x80 + cp mod 64])"

definition escape :: "nat \<Rightarrow> string" where
  "escape cp = concat (map percent (utf8 cp))"

definition prepend :: "string \<Rightarrow> error + string \<Rightarrow> error + string" where
  "prepend s r = (case r of Inl e \<Rightarrow> Inl e | Inr t \<Rightarrow> Inr (s @ t))"

definition high_surrogate :: "nat \<Rightarrow> bool" where
  "high_surrogate u \<longleftrightarrow> 0xD800 \<le> u \<and> u < 0xDC00"

definition low_surrogate :: "nat \<Rightarrow> bool" where
  "low_surrogate u \<longleftrightarrow> 0xDC00 \<le> u \<and> u < 0xE000"

fun encode_units :: "nat list \<Rightarrow> error + string" where
  "encode_units [] = Inr []"
| "encode_units (u # us) =
    (case find (\<lambda>c. of_char c = u) unreserved_chars of
       Some c \<Rightarrow> prepend [c] (encode_units us)
     | None \<Rightarrow>
        if high_surrogate u then
          (case us of
             [] \<Rightarrow> Inl URIError
           | l # rest \<Rightarrow>
               if low_surrogate l
               then prepend (escape (0x10000 + (u - 0xD800) * 0x400 + (l - 0xDC00)))
                      (encode_units rest)
               else Inl URIError)
        else if low_surrogate u then Inl URIError
        else prepend (escape u) (encode_units us))"

definition encodeURIComponent :: "js_string \<Rightarrow> error + string" where
  "encodeURIComponent s = encode_units (map unat s)"

text \<open>The code units of a string of ASCII characters, such as the digits of a number.\<close>

definition ascii :: "string \<Rightarrow> js_string" where
  "ascii s = map (\<lambda>c. of_nat (of_char c)) s"

text \<open>
  A \<^verbatim>\<open>Date\<close> is its time value in milliseconds since the epoch, \<open>None\<close> for an invalid
  date. \<^verbatim>\<open>toISOString\<close> throws a RangeError on an invalid date and otherwise prints
  the UTC calendar date (proleptic Gregorian) and time of day; years outside 0..9999 are
  printed with a sign and six digits.
\<close>

definition pad :: "nat \<Rightarrow> nat \<Rightarrow> string" where
  "pad w n = replicate (w - length (string_of_nat n)) (CHR ''0'') @ string_of_nat n"

definition civil_from_days :: "int \<Rightarrow> int \<times> nat \<times> nat" where
  "civil_from_days days =
    (let z = days + 719468;
         era = z div 146097;
         doe = z mod 146097;
         yoe = (doe - doe div 1460 + doe div 36524 - doe div 146096) div 365;
         doy = doe - (365 * yoe + yoe div 4 - yoe div 100);
         mp = (5 * doy + 2) div 153;
         d = doy - (153 * mp + 2) div 5 + 1;
         m = (if mp < 10 then mp + 3 else mp - 9);
         y = yoe + era * 400 + (if m \<le> 2 then 1 else 0)
     in (y, nat m, nat d))"

definition iso_year :: "int \<Rightarrow> string" where
  "iso_year y =
    (if 0 \<le> y \<and> y \<le> 9999 then pad 4 (nat y)
     else if y < 0 then CHR ''-'' # pad 6 (nat (- y))
     else CHR ''+'' # pad 6 (nat y))"

definition iso_string :: "int \<Rightarrow> string" where
  "iso_string t =
    (let ms = nat (t mod 86400000) in
     (case civil_from_days (t div 86400000) of (y, m, d) \<Rightarrow>
        iso_year y @ ''-'' @ pad 2 m @ ''-'' @ pad 2 d @ ''T''
        @ pad 2 (ms div 3600000) @ '':'' @ pad 2 (ms div 60000 mod 60) @ '':''
        @ pad 2 (ms div 1000 mod 60) @ ''.'' @ pad 3 (ms mod 1000) @ ''Z''))"

definition toISOString :: "int option \<Rightarrow> error + string" where
  "toISOString d = (case d of None \<Rightarrow> Inl RangeError | Some t \<Rightarrow> Inr (iso_string t))"

text \<open>
  \<^verbatim>\<open>JSON.stringify\<close> of an object literal: a property whose value is
  \<^verbatim>\<open>undefined\<close> is left out, the others keep their order.
\<close>

fun stringify_object :: "(string \<times> jsval) list \<Rightarrow> (string \<times> json) list" where
  "stringify_object [] = []"
| "stringify_object ((k, Undefined) # ps) = stringify_object ps"
| "stringify_object ((k, Val v) # ps) = (k, v) # stringify_object ps"

fun str_val :: "string option \<Rightarrow> jsval" where
  "str_val None = Undefined"
| "str_val (Some s) = Val (JStr s)"

subsection \<open>Public API\<close>

text \<open>What the public methods resolve to.\<close>

datatype readable = Readable_fromWeb string

text \<open>\<^verbatim>\<open>Readable.fromWeb(response.body)\<close>: a \<^verbatim>\<open>null\<close> body is refused with a TypeError.\<close>

definition fromWeb :: "string option \<Rightarrow> error + readable" where
  "fromWeb b = (case b of None \<Rightarrow> Inl TypeError | Some bytes \<Rightarrow> Inr (Readable_fromWeb bytes))"

text \<open>\<^verbatim>\<open>const response = await this.#request(...); return response.json()\<close>\<close>

definition request_json ::
  "transport \<Rightarrow> string \<Rightarrow> string \<Rightarrow> request_options \<Rightarrow> state \<Rightarrow> (error + json) \<times> state" where
  "request_json T method path options s =
    (case request T method path options True s of
       (Inl e, s') \<Rightarrow> (Inl e, s')
     | (Inr response, s') \<Rightarrow> (response_json response, s'))"

definition getTemplates :: "transport \<Rightarrow> state \<Rightarrow> (error + json) \<times> state" where
  "getTemplates T s = request_json T ''GET'' ''api/templates'' no_options s"

text \<open>
  The argument of \<open>request\<close> is evaluated before \<open>request\<close> is called, so an identifier
  that cannot be encoded ends the method before the pipeline is entered.
\<close>

definition getTemplate :: "transport \<Rightarrow> js_string \<Rightarrow> state \<Rightarrow> (error + json) \<times> state" where
  "getTemplate T templateId s =
    (case encodeURIComponent templateId of
       Inl e \<Rightarrow> (Inl e, s)
     | Inr enc \<Rightarrow> request_json T ''GET'' (''api/template/'' @ enc) no_options s)"

text \<open>\<open>None\<close> for an argument left out: the defaults are 20 and 0.\<close>

definition getDocuments :: "transport \<Rightarrow> int option \<Rightarrow> int option \<Rightarrow> state \<Rightarrow> (error + json) \<times> state" where
  "getDocuments T limit offset s =
    (let limit' = (case limit of None \<Rightarrow> 20 | Some n \<Rightarrow> n);
         offset' = (case offset of None \<Rightarrow> 0 | Some n \<Rightarrow> n)
     in (case encodeURIComponent (ascii (string_of_int limit')) of
           Inl e \<Rightarrow> (Inl e, s)
         | Inr l \<Rightarrow>
            (case encodeURIComponent (ascii (string_of_int offset')) of
               Inl e \<Rightarrow> (Inl e, s)
             | Inr off \<Rightarrow>
                request_json T ''GET'' (''api/documents?limit='' @ l @ ''&offset='' @ off)
                  no_options s)))"

definition getDocument :: "transport \<Rightarrow> js_string \<Rightarrow> state \<Rightarrow> (error + json) \<times> state" where
  "getDocument T documentId s =
    (case encodeURIComponent documentId of
       Inl e \<Rightarrow> (Inl e, s)
     | Inr enc \<Rightarrow> request_json T ''GET'' (''api/document/'' @ enc) no_options s)"

record recipient =
  email :: "string option"
  first_name :: "string option"
  last_name :: "string option"
  role_name :: "string option"
  locale' :: "string option"

text \<open>
  The \<^verbatim>\<open>expirationDate\<close> argument: left out, a \<^verbatim>\<open>Date\<close> instance (with its time
  value), or any other value, which is not an instance of \<^verbatim>\<open>Date\<close>.
\<close>

datatype expiration = NoExpiration | DateValue "int option" | OtherValue json

record create_input =
  templateId :: "string option"
  documentName :: "string option"
  recipients :: "recipient list option"
  userDefinedMetadata :: jsval
  expirationDate :: expiration

definition recipient_object :: "recipient \<Rightarrow> json" where
  "recipient_object r =
     JObj (stringify_object
       [(''email'', str_val (email r)),
        (''first_name'', str_val (first_name r)),
        (''last_name'', str_val (last_name r)),
        (''role_name'', str_val (role_name r)),
        (''locale'', str_val (locale' r))])"

text \<open>
  The \<^verbatim>\<open>requestData\<close> object, built before the pipeline is entered:
  \<^verbatim>\<open>recipients.map\<close> throws when \<^verbatim>\<open>recipients\<close> is left out, and
  \<^verbatim>\<open>toISOString\<close> when the date is invalid.
\<close>

definition requestData :: "create_input \<Rightarrow> error + (string \<times> jsval) list" where
  "requestData inp =
    (case recipients inp of
       None \<Rightarrow> Inl TypeError
     | Some rs \<Rightarrow>
        (let data = [(''name'', str_val (documentName inp)),
                     (''template_id'', str_val (templateId inp)),
                     (''recipients'', Val (JArr (map recipient_object rs)))];
             data' = (if truthy (userDefinedMetadata inp)
                      then AList.update ''user_defined_metadata'' (userDefinedMetadata inp) data
                      else data)
         in (case expirationDate inp of
               DateValue d \<Rightarrow>
                 (case toISOString d of
                    Inl e \<Rightarrow> Inl e
                  | Inr str \<Rightarrow> Inr (AList.update ''expiration_date'' (Val (JStr str)) data'))
             | _ \<Rightarrow> Inr data')))"

text \<open>The body \<^verbatim>\<open>createDocument\<close> passes to the pipeline.\<close>

definition createDocument_body :: "create_input \<Rightarrow> error + json" where
  "createDocument_body inp =
    (case requestData inp of Inl e \<Rightarrow> Inl e | Inr data \<Rightarrow> Inr (JObj (stringify_object data)))"

definition createDocument :: "transport \<Rightarrow> create_input \<Rightarrow> state \<Rightarrow> (error + json) \<times> state" where
  "createDocument T inp s =
    (case createDocument_body inp of
       Inl e \<Rightarrow> (Inl e, s)
     | Inr b \<Rightarrow>
        request_json T ''POST'' ''api/document''
          \<lparr> ro_headers = Some [(''Content-Type'', ''application/json'')],
            ro_body = Some (JSON_text b),
            ro_timeout = None \<rparr> s)"

definition downloadDocument :: "transport \<Rightarrow> js_string \<Rightarrow> state \<Rightarrow> (error + readable) \<times> state" where
  "downloadDocument T documentId s =
    (case encodeURIComponent documentId of
       Inl e \<Rightarrow> (Inl e, s)
     | Inr enc \<Rightarrow>
        (case request T ''GET'' (''api/document/'' @ enc @ ''/download'') no_options False s of
           (Inl e, s') \<Rightarrow> (Inl e, s')
         | (Inr response, s') \<Rightarrow> (fromWeb (resp_body response), s')))"

definition deleteDocument :: "transport \<Rightarrow> js_string \<Rightarrow> state \<Rightarrow> (error + bool) \<times> state" where
  "deleteDocument T documentId s =
    (case encodeURIComponent documentId of
       Inl e \<Rightarrow> (Inl e, s)
     | Inr enc \<Rightarrow>
        (case request T ''DELETE'' (''api/document/'' @ enc) no_options True s of
           (Inl e, s') \<Rightarrow> (Inl e, s')
         | (Inr response, s') \<Rightarrow> (Inr True, s')))"

definition getCredits :: "transport \<Rightarrow> state \<Rightarrow> (error + json) \<times> state" where
  "getCredits T s = request_json T ''GET'' ''api/credits'' no_options s"

section \<open>Notions the properties are stated with\<close>

text \<open>
  The Fetch standard sets \<^verbatim>\<open>ok\<close> exactly for the statuses 200 to 299. The record keeps
  both fields, since the client reads both; a property that speaks of a status and needs
  the flag assumes the response is well formed in this sense.
\<close>

definition well_formed :: "response \<Rightarrow> bool" where
  "well_formed r \<longleftrightarrow> (resp_ok r \<longleftrightarrow> 200 \<le> resp_status r \<and> resp_status r \<le> 299)"

text \<open>The error of the guard of \<open>request\<close>, and the error \<open>handleResponse\<close> makes of a response.\<close>

definition not_connected :: error where
  "not_connected = ESignBaseSDKError ''Client is not connected. Call connect() first.'' None"

definition http_error :: "response \<Rightarrow> error" where
  "http_error r =
     ESignBaseSDKError (case resp_text r of Some m \<Rightarrow> m | None \<Rightarrow> ''Unknown error'')
       (Some (resp_status r))"

text \<open>The URL \<open>request\<close> computes for a path.\<close>

definition request_url :: "client \<Rightarrow> string \<Rightarrow> string" where
  "request_url c path = baseURL c @ strip_leading_slash path"

text \<open>
  The Authorization header a call carries, and the one the pipeline gives a dispatch built
  from a client: the caller's own when the caller's headers have that key (the last entry,
  were there several), the bearer header of the client's stored token otherwise.
\<close>

definition authorization :: "fetch_call \<Rightarrow> string option" where
  "authorization call = map_of (fc_headers call) ''Authorization''"

definition pipeline_authorization :: "request_options \<Rightarrow> client \<Rightarrow> string" where
  "pipeline_authorization options c =
     (case map_of (rev (case ro_headers options of None \<Rightarrow> [] | Some h \<Rightarrow> h)) ''Authorization'' of
        None \<Rightarrow> ''Bearer '' @ js_to_string (accessToken c)
      | Some v \<Rightarrow> v)"

text \<open>The headers a caller of \<open>request\<close> supplied.\<close>

definition caller_headers :: "request_options \<Rightarrow> (string \<times> string) list" where
  "caller_headers options = (case ro_headers options of None \<Rightarrow> [] | Some h \<Rightarrow> h)"

text \<open>
  The validation rules in the order in which the constructor checks them, each as the
  condition under which it is violated and the message it fails with; the first violated
  rule of an input.
\<close>

definition validation_rules :: "((ctor_options \<Rightarrow> bool) \<times> string) list" where
  "validation_rules =
    [(\<lambda>opts. falsy (opt_clientId opts), ''Client ID is required''),
     (\<lambda>opts. falsy (opt_clientSecret opts), ''Client secret is required''),
     (\<lambda>opts. falsy (opt_grantType opts), ''Grant type is required''),
     (\<lambda>opts. case opt_scope opts of None \<Rightarrow> True | Some sc \<Rightarrow> sc = [],
        ''At least one scope must be provided''),
     (\<lambda>opts. case opt_grantType opts of None \<Rightarrow> True | Some gt \<Rightarrow> gt \<notin> set GrantType_values,
        ''Invalid grant type''),
     (\<lambda>opts. case opt_scope opts of None \<Rightarrow> True
              | Some sc \<Rightarrow> \<not> list_all (\<lambda>s. s \<in> set Scope_values) sc,
        ''Invalid scope value provided''),
     (\<lambda>opts. opt_grantType opts = Some GrantType_AUTHORIZATION_CODE
              \<and> (falsy (opt_username opts) \<or> falsy (opt_password opts)),
        ''Username and password are required for authorization_code grant type'')]"

definition first_violation :: "ctor_options \<Rightarrow> string option" where
  "first_violation opts = map_option snd (find (\<lambda>rule. fst rule opts) validation_rules)"

text \<open>
  The eight authenticated methods as one function of the method called and its arguments,
  so that a property can speak of every one of them.
\<close>

datatype operation =
    GetTemplates
  | GetTemplate js_string
  | GetDocuments "int option" "int option"
  | GetDocument js_string
  | CreateDocument create_input
  | DownloadDocument js_string
  | DeleteDocument js_string
  | GetCredits

datatype outcome = Json json | Stream readable | Deleted bool

fun perform :: "transport \<Rightarrow> operation \<Rightarrow> state \<Rightarrow> (error + outcome) \<times> state" where
  "perform T GetTemplates s = apfst (map_sum id Json) (getTemplates T s)"
| "perform T (GetTemplate i) s = apfst (map_sum id Json) (getTemplate T i s)"
| "perform T (GetDocuments l off) s = apfst (map_sum id Json) (getDocuments T l off s)"
| "perform T (GetDocument i) s = apfst (map_sum id Json) (getDocument T i s)"
| "perform T (CreateDocument inp) s = apfst (map_sum id Json) (createDocument T inp s)"
| "perform T (DownloadDocument i) s = apfst (map_sum id Stream) (downloadDocument T i s)"
| "perform T (DeleteDocument i) s = apfst (map_sum id Deleted) (deleteDocument T i s)"
| "perform T GetCredits s = apfst (map_sum id Json) (getCredits T s)"

text \<open>
  The error a method throws before it enters the pipeline: the methods that take an
  identifier encode it first, and \<open>createDocument\<close> builds its body first. (The limit
  and offset of \<open>getDocuments\<close> are numbers, whose digits always encode.)
\<close>

definition thrown :: "error + 'a \<Rightarrow> error option" where
  "thrown r = (case r of Inl e \<Rightarrow> Some e | Inr v \<Rightarrow> None)"

fun early_failure :: "operation \<Rightarrow> error option" where
  "early_failure (CreateDocument inp) = thrown (createDocument_body inp)"
| "early_failure (GetTemplate i) = thrown (encodeURIComponent i)"
| "early_failure (GetDocument i) = thrown (encodeURIComponent i)"
| "early_failure (DownloadDocument i) = thrown (encodeURIComponent i)"
| "early_failure (DeleteDocument i) = thrown (encodeURIComponent i)"
| "early_failure other = None"

text \<open>
  \<^verbatim>\<open>String.prototype.isWellFormed\<close>: no high surrogate without a low surrogate after
  it, and no low surrogate that does not follow a high one.
\<close>

fun isWellFormed_units :: "nat list \<Rightarrow> bool" where
  "isWellFormed_units [] = True"
| "isWellFormed_units [u] = (\<not> high_surrogate u \<and> \<not> low_surrogate u)"
| "isWellFormed_units (u # l # rest) =
     (if high_surrogate u then low_surrogate l \<and> isWellFormed_units rest
      else \<not> low_surrogate u \<and> isWellFormed_units (l # rest))"

definition isWellFormed :: "js_string \<Rightarrow> bool" where
  "isWellFormed s = isWellFormed_units (map unat s)"

subsection \<open>Concrete inputs\<close>

text \<open>A well-formed \<open>createDocument\<close> input whose expiration date can be varied.\<close>

definition example_input :: "expiration \<Rightarrow> create_input" where
  "example_input e =
     \<lparr> templateId = Some ''tpl'', documentName = Some ''Doc'',
       recipients = Some [\<lparr> email = Some ''a@a.com'', first_name = Some ''A'',
                            last_name = Some ''B'', role_name = Some ''r'',
                            locale' = Some ''en'' \<rparr>],
       userDefinedMetadata = Undefined, expirationDate = e \<rparr>"

text \<open>The options of the test suite's client, with a grant type, a scope and a base URL to vary.\<close>

definition example_options :: "string \<Rightarrow> string list \<Rightarrow> string option \<Rightarrow> ctor_options" where
  "example_options gt sc url =
     \<lparr> opt_clientId = Some ''id'', opt_clientSecret = Some ''secret'', opt_grantType = Some gt,
       opt_scope = Some sc, opt_username = None, opt_password = None, opt_baseURL = url \<rparr>"

text \<open>The client these options construct, holding a given token.\<close>

definition example_client :: "jsval \<Rightarrow> client" where
  "example_client tok =
     \<lparr> baseURL = ''https://app.esignbase.com/'', clientId = ''id'', clientSecret = ''secret'',
       grantType = ''client_credentials'', username = None, password = None,
       scope = [''read''], accessToken = tok \<rparr>"

text \<open>A transport that answers the n-th call with the n-th entry of a script, as the mocks
  of the test suite do, and rejects once the script is used up.\<close>

definition scripted :: "response option list \<Rightarrow> transport" where
  "scripted script log call = (if length log < length script then script ! length log else None)"

definition ok_json :: "json \<Rightarrow> response" where
  "ok_json v = \<lparr> resp_ok = True, resp_status = 200, resp_text = None, resp_json = Some v,
                 resp_body = Some [] \<rparr>"

definition failed :: "nat \<Rightarrow> string \<Rightarrow> response" where
  "failed st msg = \<lparr> resp_ok = False, resp_status = st, resp_text = Some msg, resp_json = None,
                     resp_body = Some msg \<rparr>"

text \<open>Options whose headers carry an Authorization entry of the caller's own.\<close>

definition overriding_options :: request_options where
  "overriding_options = \<lparr> ro_headers = Some [(''Authorization'', ''Basic evil'')],
                           ro_body = None, ro_timeout = None \<rparr>"

text \<open>The options \<open>createDocument\<close> passes to the pipeline for a body.\<close>

definition json_options :: "json \<Rightarrow> request_options" where
  "json_options b = \<lparr> ro_headers = Some [(''Content-Type'', ''application/json'')],
                       ro_body = Some (JSON_text b), ro_timeout = None \<rparr>"

text \<open>
  Scripts: a 401 followed by a failing token exchange; a 401, a successful exchange and a
  second 401; a 401, a successful exchange and a success (the retry scenario of the test
  suite); and a successful download.
\<close>

definition unauthorized_then_500 :: transport where
  "unauthorized_then_500 = scripted [Some (failed 401 ''Unauthorized''), Some (failed 500 ''boom'')]"

definition twice_unauthorized :: transport where
  "twice_unauthorized =
     scripted [Some (failed 401 ''Unauthorized''),
               Some (ok_json (JObj [(''access_token'', JStr ''t2'')])),
               Some (failed 401 ''Still unauthorized'')]"

definition unauthorized_once :: transport where
  "unauthorized_once =
     scripted [Some (failed 401 ''Unauthorized''),
               Some (ok_json (JObj [(''access_token'', JStr ''t2'')])),
               Some (ok_json (JObj [(''templates'', JArr [])]))]"

definition pdf_response :: response where
  "pdf_response = \<lparr> resp_ok = True, resp_status = 200, resp_text = None, resp_json = None,
                     resp_body = Some ''%PDF-1.7'' \<rparr>"

text \<open>A success response without a body, as a 204 has it.\<close>

definition no_content :: response where
  "no_content = \<lparr> resp_ok = True, resp_status = 204, resp_text = Some [], resp_json = None,
                   resp_body = None \<rparr>"

section \<open>Lemmas about the helpers\<close>

lemma falsy_iff: "falsy x \<longleftrightarrow> x = None \<or> x = Some []"
  by (cases x) auto

lemma endsWith_slash: "endsWith s ''/'' \<longleftrightarrow> s \<noteq> [] \<and> last s = CHR ''/''"
  unfolding endsWith_def
  by (cases s rule: rev_cases) auto

lemma map_of_spread: "map_of (spread obj src) = map_of obj ++ map_of (rev src)"
proof (induction src arbitrary: obj)
  case Nil
  then show ?case by simp
next
  case (Cons p src)
  obtain k v where p: "p = (k, v)" by (cases p)
  have "map_of (spread obj (p # src)) = map_of (AList.update k v obj) ++ map_of (rev src)"
    using Cons.IH p by simp
  also have "\<dots> = map_of obj ++ ([k \<mapsto> v] ++ map_of (rev src))"
    by (simp add: update_conv')
  finally show ?case using p by simp
qed

lemma connect_rejected:
  "T log (token_call c) = None \<Longrightarrow> connect T (c, log) = (Inl FetchRejected, (c, log @ [token_call c]))"
  by (simp add: connect_def fetch_def)

lemma connect_response:
  "T log (token_call c) = Some r \<Longrightarrow>
   connect T (c, log) =
     (if \<not> resp_ok r then (Inl (http_error r), (c, log @ [token_call c]))
      else case resp_json r of
             None \<Rightarrow> (Inl JsonRejected, (c, log @ [token_call c]))
           | Some data \<Rightarrow>
              (case access_token data of
                 Inl e \<Rightarrow> (Inl e, (c, log @ [token_call c]))
               | Inr tok \<Rightarrow> (Inr (), (c\<lparr>accessToken := tok\<rparr>, log @ [token_call c]))))"
  by (simp add: connect_def fetch_def handleResponse_def response_json_def http_error_def
      split: option.splits sum.splits)

lemma connect_log: "snd (snd (connect T (c, log))) = log @ [token_call c]"
  by (cases "T log (token_call c)")
     (auto simp: connect_rejected connect_response split: option.splits sum.splits)

lemma connect_failure_keeps_client:
  "fst (connect T (c, log)) = Inl e \<Longrightarrow> fst (snd (connect T (c, log))) = c"
  by (cases "T log (token_call c)")
     (auto simp: connect_rejected connect_response split: option.splits sum.splits if_splits)

lemma connect_success_token:
  "connect T (c, log) = (Inr u, (c', log')) \<Longrightarrow>
   \<exists>r data tok. T log (token_call c) = Some r \<and> resp_ok r \<and> resp_json r = Some data
       \<and> access_token data = Inr tok \<and> c' = c\<lparr>accessToken := tok\<rparr> \<and> log' = log @ [token_call c]"
  by (cases "T log (token_call c)")
     (auto simp: connect_rejected connect_response split: option.splits sum.splits if_splits)

lemma executeFetch_eq:
  "executeFetch T url m opts (c, log) =
     ((case T log (dispatch_call c url m opts) of None \<Rightarrow> Inl FetchRejected | Some r \<Rightarrow> Inr r),
      (c, log @ [dispatch_call c url m opts]))"
  by (simp add: executeFetch_def fetch_def split: option.splits)

lemma request_not_connected:
  "\<not> isConnected c \<Longrightarrow> request T m p opts retry (c, log) = (Inl not_connected, (c, log))"
  by (simp add: request_def not_connected_def)

lemma request_rejected:
  "isConnected c \<Longrightarrow> T log (dispatch_call c (request_url c p) m opts) = None \<Longrightarrow>
   request T m p opts retry (c, log)
     = (Inl FetchRejected, (c, log @ [dispatch_call c (request_url c p) m opts]))"
  by (auto simp add: request_def executeFetch_eq request_url_def Let_def)

lemma request_no_retry:
  "isConnected c \<Longrightarrow> T log (dispatch_call c (request_url c p) m opts) = Some r \<Longrightarrow>
   \<not> (resp_status r = 401 \<and> retry) \<Longrightarrow>
   request T m p opts retry (c, log)
     = (handleResponse r, (c, log @ [dispatch_call c (request_url c p) m opts]))"
  by (auto simp add: request_def executeFetch_eq request_url_def Let_def)

lemma request_reauth_failed:
  "isConnected c \<Longrightarrow> T log (dispatch_call c (request_url c p) m opts) = Some r \<Longrightarrow>
   resp_status r = 401 \<Longrightarrow>
   connect T (c, log @ [dispatch_call c (request_url c p) m opts]) = (Inl e, s2) \<Longrightarrow>
   request T m p opts True (c, log) = (Inl e, s2)"
  by (auto simp add: request_def executeFetch_eq request_url_def Let_def)

lemma request_reauth_ok:
  "isConnected c \<Longrightarrow> T log (dispatch_call c (request_url c p) m opts) = Some r \<Longrightarrow>
   resp_status r = 401 \<Longrightarrow>
   connect T (c, log @ [dispatch_call c (request_url c p) m opts]) = (Inr u, (c2, log2)) \<Longrightarrow>
   request T m p opts True (c, log)
     = ((case T log2 (dispatch_call c2 (request_url c p) m opts) of
           None \<Rightarrow> Inl FetchRejected | Some r' \<Rightarrow> handleResponse r'),
        (c2, log2 @ [dispatch_call c2 (request_url c p) m opts]))"
  by (auto simp add: request_def executeFetch_eq request_url_def Let_def split: option.splits)

lemma endsWith_suffix: "endsWith s suf \<longleftrightarrow> suffix suf s"
proof
  assume "endsWith s suf"
  then have "s = take (length s - length suf) s @ suf"
    by (metis append_take_drop_id endsWith_def)
  then show "suffix suf s" by (metis suffixI)
next
  assume "suffix suf s"
  then obtain zs where "s = zs @ suf" by (auto simp: suffix_def)
  then show "endsWith s suf" by (simp add: endsWith_def)
qed

lemma constructor_stores_normalized:
  "constructor opts = Inr c \<Longrightarrow>
   baseURL c = normalize_baseURL (case opt_baseURL opts of None \<Rightarrow> default_baseURL | Some b \<Rightarrow> b)"
  by (auto simp: constructor_def split: option.splits if_splits)

lemma normalize_baseURL_slash: "endsWith (normalize_baseURL b) ''/''"
  by (simp add: normalize_baseURL_def endsWith_slash)

lemma appended_slash_single: "\<not> endsWith b ''/'' \<Longrightarrow> \<not> endsWith (b @ ''/'') ''//''"
  by (cases b rule: rev_cases) (auto simp: endsWith_def)

lemma connect_cases:
  "(\<exists>e. connect T (c, log) = (Inl e, (c, log @ [token_call c])))
   \<or> (\<exists>tok. connect T (c, log) = (Inr (), (c\<lparr>accessToken := tok\<rparr>, log @ [token_call c])))"
  by (cases "T log (token_call c)")
     (auto simp: connect_rejected connect_response split: option.splits sum.splits)

lemma dispatch_call_fields:
  "fc_url (dispatch_call c url m opts) = url"
  "fc_method (dispatch_call c url m opts) = m"
  "fc_body (dispatch_call c url m opts) = ro_body opts"
  "fc_headers (dispatch_call c url m opts)
     = spread [(''Authorization'', ''Bearer '' @ js_to_string (accessToken c))] (caller_headers opts)"
  by (simp_all add: dispatch_call_def caller_headers_def)

lemma handleResponse_failure: "\<not> resp_ok r \<Longrightarrow> handleResponse r = Inl (http_error r)"
  by (simp add: handleResponse_def http_error_def)

lemma handleResponse_success: "resp_ok r \<Longrightarrow> handleResponse r = Inr r"
  by (simp add: handleResponse_def)

lemma request_calls:
  "\<exists>new. snd (snd (request T m p opts retry (c, log))) = log @ new
     \<and> (new = []
        \<or> new = [dispatch_call c (request_url c p) m opts]
        \<or> new = [dispatch_call c (request_url c p) m opts, token_call c]
        \<or> new = [dispatch_call c (request_url c p) m opts, token_call c,
                  dispatch_call (fst (snd (request T m p opts retry (c, log))))
                    (request_url c p) m opts])"
proof (cases "isConnected c")
  case False
  then show ?thesis by (simp add: request_not_connected)
next
  case conn: True
  show ?thesis
  proof (cases "T log (dispatch_call c (request_url c p) m opts)")
    case None
    then show ?thesis using conn by (simp add: request_rejected)
  next
    case (Some r)
    show ?thesis
    proof (cases "resp_status r = 401 \<and> retry")
      case False
      then show ?thesis using conn Some by (simp add: request_no_retry)
    next
      case True
      then show ?thesis
        using conn Some
          connect_cases [of T c "log @ [dispatch_call c (request_url c p) m opts]"]
        by (auto simp: request_reauth_failed request_reauth_ok)
    qed
  qed
qed

lemma request_calls_exact:
  "\<exists>new. snd (snd (request T m p opts retry (c, log))) = log @ new
     \<and> (new = []
        \<or> new = [dispatch_call c (request_url c p) m opts]
        \<or> new = [dispatch_call c (request_url c p) m opts, token_call c]
        \<or> new = [dispatch_call c (request_url c p) m opts, token_call c,
                  dispatch_call
                    (fst (snd (connect T (c, log @ [dispatch_call c (request_url c p) m opts]))))
                    (request_url c p) m opts]
          \<and> fst (snd (request T m p opts retry (c, log)))
              = fst (snd (connect T (c, log @ [dispatch_call c (request_url c p) m opts]))))"
proof (cases "isConnected c")
  case False
  then show ?thesis by (simp add: request_not_connected)
next
  case conn: True
  show ?thesis
  proof (cases "T log (dispatch_call c (request_url c p) m opts)")
    case None
    then show ?thesis using conn by (simp add: request_rejected)
  next
    case (Some r)
    show ?thesis
    proof (cases "resp_status r = 401 \<and> retry")
      case False
      then show ?thesis using conn Some by (simp add: request_no_retry)
    next
      case True
      then show ?thesis
        using conn Some
          connect_cases [of T c "log @ [dispatch_call c (request_url c p) m opts]"]
        by (auto simp: request_reauth_failed request_reauth_ok)
    qed
  qed
qed

lemma dispatch_call_authorization:
  "map_of (fc_headers (dispatch_call c url m opts)) ''Authorization''
     = Some (case map_of (rev (caller_headers opts)) ''Authorization'' of
               None \<Rightarrow> ''Bearer '' @ js_to_string (accessToken c)
             | Some v \<Rightarrow> v)"
  by (simp add: dispatch_call_fields map_of_spread map_add_def split: option.splits)

lemma dispatch_call_pipeline_authorization:
  "authorization (dispatch_call c url m opts) = Some (pipeline_authorization opts c)"
  unfolding authorization_def pipeline_authorization_def dispatch_call_authorization
    caller_headers_def
  by (rule refl)

lemma request_first_call:
  "isConnected c \<Longrightarrow>
   \<exists>rest. snd (snd (request T m p opts retry (c, log)))
            = log @ dispatch_call c (request_url c p) m opts # rest"
proof -
  assume conn: "isConnected c"
  show ?thesis
  proof (cases "T log (dispatch_call c (request_url c p) m opts)")
    case None
    then show ?thesis using conn by (simp add: request_rejected)
  next
    case (Some r)
    show ?thesis
    proof (cases "resp_status r = 401 \<and> retry")
      case False
      then show ?thesis using conn Some by (simp add: request_no_retry)
    next
      case True
      then show ?thesis
        using conn Some
          connect_cases [of T c "log @ [dispatch_call c (request_url c p) m opts]"]
        by (auto simp: request_reauth_failed request_reauth_ok)
    qed
  qed
qed

lemma request_json_state:
  "snd (request_json T m p opts s) = snd (request T m p opts True s)"
  by (simp add: request_json_def split: prod.splits sum.splits)

lemma createDocument_first_call:
  "createDocument_body inp = Inr b \<Longrightarrow> isConnected c \<Longrightarrow>
   \<exists>rest. snd (snd (createDocument T inp (c, log)))
            = log @ dispatch_call c (baseURL c @ ''api/document'') ''POST'' (json_options b) # rest"
  using request_first_call [of c T "''POST''" "''api/document''" "json_options b" True log]
  by (simp add: createDocument_def request_json_state json_options_def request_url_def)

lemma request_json_not_connected:
  "\<not> isConnected c \<Longrightarrow> request_json T m p opts (c, log) = (Inl not_connected, (c, log))"
  by (simp add: request_json_def request_not_connected)

lemma unat_ascii: "map unat (ascii s) = map of_char s"
proof -
  have "(of_char c :: nat) mod 65536 = of_char c" for c :: char
    using nat_of_char_less_256 [of c] by (intro mod_less) linarith
  then show ?thesis
    by (simp add: ascii_def unat_of_nat take_bit_eq_mod o_def)
qed

lemma encodeURIComponent_ascii: "encodeURIComponent (ascii s) = encode_units (map of_char s)"
  by (simp add: encodeURIComponent_def unat_ascii)

lemma prepend_Inr: "prepend s (Inr t) = Inr (s @ t)"
  by (simp add: prepend_def)

lemma prepend_Inl_iff: "prepend s r = Inl e \<longleftrightarrow> r = Inl e"
  by (cases r) (simp_all add: prepend_def)

lemma encode_units_plain:
  "\<forall>u \<in> set us. u < 0xD800 \<Longrightarrow> \<exists>r. encode_units us = Inr r"
proof (induction us)
  case Nil
  then show ?case by simp
next
  case (Cons u us)
  then obtain r where r: "encode_units us = Inr r" by auto
  have "\<not> high_surrogate u" "\<not> low_surrogate u"
    using Cons.prems by (simp_all add: high_surrogate_def low_surrogate_def)
  then show ?case
    using r by (simp add: prepend_Inr split: option.splits)
qed

lemma encode_number: "\<exists>r. encodeURIComponent (ascii s) = Inr r"
proof -
  have "\<forall>u \<in> set (map of_char s). u < (0xD800::nat)"
  proof
    fix u :: nat assume "u \<in> set (map of_char s)"
    then obtain c :: char where "u = of_char c" by auto
    then show "u < 0xD800"
      using nat_of_char_less_256 [of c] by linarith
  qed
  then show ?thesis
    using encode_units_plain [of "map of_char s"] by (simp add: encodeURIComponent_ascii)
qed

lemma encode_units_error: "encode_units us = Inl e \<Longrightarrow> e = URIError"
  by (induction us arbitrary: e rule: encode_units.induct)
     (auto simp: prepend_Inl_iff split: option.splits list.splits if_splits)

lemma encode_units_wellFormed:
  "(\<exists>e. encode_units us = Inl e) \<longleftrightarrow> \<not> isWellFormed_units us"
proof (induction us rule: isWellFormed_units.induct)
  case 1
  then show ?case by simp
next
  case (2 u)
  have "find (\<lambda>c. of_char c = u) unreserved_chars = Some c \<Longrightarrow> u < 256" for c
    by (auto simp: find_Some_iff)
  then have "find (\<lambda>c. of_char c = u) unreserved_chars \<noteq> None
               \<Longrightarrow> \<not> high_surrogate u \<and> \<not> low_surrogate u"
    by (auto simp: high_surrogate_def low_surrogate_def)
  then show ?case
    by (auto simp: prepend_def split: option.splits)
next
  case (3 u l rest)
  have "find (\<lambda>c. of_char c = u) unreserved_chars = Some c \<Longrightarrow> u < 256" for c
    by (auto simp: find_Some_iff)
  then have plain: "find (\<lambda>c. of_char c = u) unreserved_chars \<noteq> None
               \<Longrightarrow> \<not> high_surrogate u \<and> \<not> low_surrogate u"
    by (auto simp: high_surrogate_def low_surrogate_def)
  show ?case
  proof (cases "high_surrogate u")
    case True
    then have "find (\<lambda>c. of_char c = u) unreserved_chars = None"
      using plain by blast
    with True 3 show ?thesis
      by (auto simp: prepend_Inl_iff)
  next
    case False
    with 3 plain show ?thesis
      by (auto simp: prepend_Inl_iff split: option.splits)
  qed
qed

lemma encodeURIComponent_failure:
  "encodeURIComponent i = Inl e \<longleftrightarrow> \<not> isWellFormed i \<and> e = URIError"
  using encode_units_error [of "map unat i"] encode_units_wellFormed [of "map unat i"]
  unfolding encodeURIComponent_def isWellFormed_def by blast

lemma thrown_Some: "thrown r = Some e \<longleftrightarrow> r = Inl e"
  by (cases r) (simp_all add: thrown_def)

lemma thrown_None: "thrown r = None \<longleftrightarrow> (\<exists>v. r = Inr v)"
  by (cases r) (simp_all add: thrown_def)

lemma perform_not_connected:
  "\<not> isConnected c \<Longrightarrow>
   perform T op (c, log)
     = (Inl (case early_failure op of Some e \<Rightarrow> e | None \<Rightarrow> not_connected), (c, log))"
proof (cases op)
  case (GetDocuments l off)
  assume nc: "\<not> isConnected c"
  obtain a where a: "encodeURIComponent (ascii (string_of_int (case l of None \<Rightarrow> 20 | Some n \<Rightarrow> n))) = Inr a"
    using encode_number by blast
  obtain b where b: "encodeURIComponent (ascii (string_of_int (case off of None \<Rightarrow> 0 | Some n \<Rightarrow> n))) = Inr b"
    using encode_number by blast
  show ?thesis
    using nc GetDocuments a b
    by (simp add: getDocuments_def request_json_not_connected Let_def)
qed (simp_all add: getTemplates_def getTemplate_def getDocument_def
        createDocument_def downloadDocument_def deleteDocument_def getCredits_def
        request_json_not_connected request_not_connected thrown_def split: sum.splits)

lemma createDocument_body_failure:
  "createDocument_body inp
     = Inl e \<longleftrightarrow> (recipients inp = None \<and> e = TypeError)
                \<or> (recipients inp \<noteq> None \<and> expirationDate inp = DateValue None \<and> e = RangeError)"
  by (auto simp: createDocument_body_def requestData_def toISOString_def Let_def
      split: option.splits expiration.splits sum.splits)

lemma early_failure_iff:
  "early_failure op = Some e
     \<longleftrightarrow> (\<exists>inp. op = CreateDocument inp
               \<and> (recipients inp = None \<and> e = TypeError
                  \<or> recipients inp \<noteq> None \<and> expirationDate inp = DateValue None \<and> e = RangeError))
         \<or> (\<exists>i. (op = GetTemplate i \<or> op = GetDocument i \<or> op = DownloadDocument i
                  \<or> op = DeleteDocument i)
               \<and> \<not> isWellFormed i \<and> e = URIError)"
  by (cases op) (auto simp: thrown_Some createDocument_body_failure encodeURIComponent_failure)

lemma not_connected_message: "sublist ''not connected'' (message not_connected)"
proof -
  have "message not_connected = ''Client is '' @ ''not connected'' @ ''. Call connect() first.''"
    by (simp add: not_connected_def)
  then show ?thesis unfolding sublist_def by blast
qed

lemma stringify_str_val:
  "stringify_object ((k, str_val x) # ps)
     = (case x of None \<Rightarrow> stringify_object ps | Some s \<Rightarrow> (k, JStr s) # stringify_object ps)"
  by (cases x) simp_all

lemma truthy_Val: "truthy x \<Longrightarrow> \<exists>v. x = Val v"
  by (cases x) simp_all

lemma createDocument_body_expiration:
  "createDocument_body inp = Inr b \<Longrightarrow>
   \<exists>kvs. b = JObj kvs
     \<and> map_of kvs ''expiration_date''
         = (case expirationDate inp of DateValue (Some t) \<Rightarrow> Some (JStr (iso_string t)) | _ \<Rightarrow> None)"
  by (auto simp: createDocument_body_def requestData_def toISOString_def Let_def stringify_str_val
      dest!: truthy_Val
      split: option.splits expiration.splits sum.splits if_splits)

subsection \<open>Evaluation of the concrete inputs\<close>

lemma example_connected: "isConnected (example_client (Val (JStr ''t1'')))"
  by (simp add: isConnected_def example_client_def)

lemmas encode_eval = encodeURIComponent_def unreserved_chars_def prepend_def escape_def utf8_def
  percent_def hex_digit_def high_surrogate_def low_surrogate_def

lemma encode_doc1: "encodeURIComponent (ascii ''doc1'') = Inr ''doc1''"
  by (simp add: encodeURIComponent_ascii unreserved_chars_def prepend_def)

lemma encode_lone_surrogate: "encodeURIComponent [0xD800] = Inl URIError"
  by (simp add: encode_eval)

lemma string_of_nat_numeral:
  "string_of_nat (numeral k) =
     (if numeral k < (10::nat) then [digit_char (numeral k)]
      else string_of_nat (numeral k div 10) @ [digit_char (numeral k mod 10)])"
  by (rule string_of_nat.simps)

lemma string_of_nat_0: "string_of_nat 0 = ''0''"
  by (simp add: string_of_nat.simps [of 0] digit_char_def)

lemma string_of_nat_1: "string_of_nat 1 = ''1''" "string_of_nat (Suc 0) = ''1''"
  by (simp_all add: string_of_nat.simps [of 1] string_of_nat.simps [of "Suc 0"] digit_char_def)

lemmas string_of_nat_eval = string_of_nat_numeral string_of_nat_0 string_of_nat_1 digit_char_def

lemma replicate_numeral: "replicate (numeral k) x = x # replicate (pred_numeral k) x"
  by (simp add: numeral_eq_Suc)

lemma pad_eval: "pad 2 1 = ''01''" "pad 2 (Suc 0) = ''01''" "pad 2 0 = ''00''" "pad 3 0 = ''000''" "pad 4 2020 = ''2020''"
  by (simp_all add: pad_def string_of_nat_eval replicate_numeral)

lemma civil_2020: "civil_from_days 18262 = (2020, 1, 1)"
  unfolding civil_from_days_def Let_def by simp

lemma iso_2020: "iso_string 1577836800000 = ''2020-01-01T00:00:00.000Z''"
proof -
  have d: "(1577836800000::int) div 86400000 = 18262" "(1577836800000::int) mod 86400000 = 0"
    by simp_all
  show ?thesis
    unfolding iso_string_def Let_def d civil_2020
    by (simp add: iso_year_def pad_eval)
qed

lemma iso_epoch: "iso_string 0 = ''1970-01-01T00:00:00.000Z''"
proof -
  have c: "civil_from_days 0 = (1970, 1, 1)"
    unfolding civil_from_days_def Let_def by simp
  show ?thesis
    unfolding iso_string_def Let_def
    by (simp add: c iso_year_def pad_def string_of_nat_eval replicate_numeral)
qed

lemma iso_before_epoch: "iso_string (- 1) = ''1969-12-31T23:59:59.999Z''"
proof -
  have d: "(- 1 :: int) div 86400000 = - 1" "(- 1 :: int) mod 86400000 = 86399999"
    by simp_all
  have c: "civil_from_days (- 1) = (1969, 12, 31)"
    unfolding civil_from_days_def Let_def by simp
  have ms: "nat 86399999 div 3600000 = (23::nat)" "nat 86399999 div 60000 mod 60 = (59::nat)"
    "nat 86399999 div 1000 mod 60 = (59::nat)" "nat 86399999 mod 1000 = (999::nat)"
    by simp_all
  show ?thesis
    unfolding iso_string_def Let_def d c ms
    by (simp add: iso_year_def pad_def string_of_nat_eval replicate_numeral)
qed

lemma iso_leap_day: "iso_string 951827696789 = ''2000-02-29T12:34:56.789Z''"
proof -
  have d: "(951827696789::int) div 86400000 = 11016" "(951827696789::int) mod 86400000 = 45296789"
    by simp_all
  have c: "civil_from_days 11016 = (2000, 2, 29)"
    unfolding civil_from_days_def Let_def by simp
  have ms: "nat 45296789 div 3600000 = (12::nat)" "nat 45296789 div 60000 mod 60 = (34::nat)"
    "nat 45296789 div 1000 mod 60 = (56::nat)" "nat 45296789 mod 1000 = (789::nat)"
    by simp_all
  show ?thesis
    unfolding iso_string_def Let_def d c ms
    by (simp add: iso_year_def pad_def string_of_nat_eval replicate_numeral)
qed

section \<open>The Authorization header of a dispatch\<close>

text \<open>
  Claim C1, as the spec has it: a caller-supplied headers map containing an Authorization
  key does not change the Authorization header that is sent. The caller's headers are
  spread after the bearer header, so the caller's entry replaces it.
\<close>

theorem caller_authorization_counterexample:
  "snd (snd (request (scripted [Some (ok_json (JObj []))]) ''GET'' ''api/templates''
               overriding_options True (example_client (Val (JStr ''t1'')), [])))
     = [dispatch_call (example_client (Val (JStr ''t1'')))
          ''https://app.esignbase.com/api/templates'' ''GET'' overriding_options]
   \<and> map_of (fc_headers (dispatch_call (example_client (Val (JStr ''t1'')))
                ''https://app.esignbase.com/api/templates'' ''GET'' overriding_options))
        ''Authorization'' = Some ''Basic evil''
   \<and> ''Basic evil'' \<noteq> ''Bearer '' @ js_to_string (accessToken (example_client (Val (JStr ''t1''))))"
proof -
  let ?c = "example_client (Val (JStr ''t1''))"
  have u: "request_url ?c ''api/templates'' = ''https://app.esignbase.com/api/templates''"
    by (simp add: request_url_def example_client_def)
  have r: "scripted [Some (ok_json (JObj []))] []
             (dispatch_call ?c (request_url ?c ''api/templates'') ''GET'' overriding_options)
           = Some (ok_json (JObj []))"
    by (simp add: scripted_def)
  have "resp_status (ok_json (JObj [])) \<noteq> 401"
    by (simp add: ok_json_def)
  then have "snd (snd (request (scripted [Some (ok_json (JObj []))]) ''GET'' ''api/templates''
               overriding_options True (?c, [])))
     = [dispatch_call ?c ''https://app.esignbase.com/api/templates'' ''GET'' overriding_options]"
    using request_no_retry
            [where T = "scripted [Some (ok_json (JObj []))]" and log = "[]" and retry = True,
             OF example_connected r]
    by (simp add: u)
  moreover have "map_of (fc_headers (dispatch_call ?c
                ''https://app.esignbase.com/api/templates'' ''GET'' overriding_options))
        ''Authorization'' = Some ''Basic evil''"
    by (simp add: dispatch_call_def overriding_options_def)
  moreover have "''Basic evil'' \<noteq> ''Bearer '' @ js_to_string (accessToken ?c)"
    by (simp add: example_client_def)
  ultimately show ?thesis by blast
qed

text \<open>
  Claim C1, amended: the calls a request makes are, in this order, its dispatch, built from
  the client as the request found it, then possibly the token exchange, then possibly the
  redispatch, built from the client as the exchange left it, which is the client the
  request ends with. The Authorization header of each dispatch is the caller's
  Authorization value when the caller's headers contain that key, and \<open>Bearer\<close> followed
  by the access token stored in the client at that moment otherwise.
\<close>

theorem dispatch_authorization:
  "(\<exists>new. snd (snd (request T m p opts retry (c, log))) = log @ new
      \<and> (new = []
         \<or> new = [dispatch_call c (request_url c p) m opts]
         \<or> new = [dispatch_call c (request_url c p) m opts, token_call c]
         \<or> new = [dispatch_call c (request_url c p) m opts, token_call c,
                   dispatch_call
                     (fst (snd (connect T (c, log @ [dispatch_call c (request_url c p) m opts]))))
                     (request_url c p) m opts]
           \<and> fst (snd (request T m p opts retry (c, log)))
               = fst (snd (connect T (c, log @ [dispatch_call c (request_url c p) m opts])))))
   \<and> authorization (dispatch_call c (request_url c p) m opts)
       = Some (pipeline_authorization opts c)
   \<and> authorization
        (dispatch_call
           (fst (snd (connect T (c, log @ [dispatch_call c (request_url c p) m opts]))))
           (request_url c p) m opts)
       = Some (pipeline_authorization opts
                 (fst (snd (connect T (c, log @ [dispatch_call c (request_url c p) m opts])))))
   \<and> (map_of (rev (caller_headers opts)) ''Authorization'' = None \<longrightarrow>
        pipeline_authorization opts c = ''Bearer '' @ js_to_string (accessToken c))
   \<and> (\<forall>v. map_of (rev (caller_headers opts)) ''Authorization'' = Some v \<longrightarrow>
        pipeline_authorization opts c = v)"
proof (intro conjI)
  show "\<exists>new. snd (snd (request T m p opts retry (c, log))) = log @ new
      \<and> (new = []
         \<or> new = [dispatch_call c (request_url c p) m opts]
         \<or> new = [dispatch_call c (request_url c p) m opts, token_call c]
         \<or> new = [dispatch_call c (request_url c p) m opts, token_call c,
                   dispatch_call
                     (fst (snd (connect T (c, log @ [dispatch_call c (request_url c p) m opts]))))
                     (request_url c p) m opts]
           \<and> fst (snd (request T m p opts retry (c, log)))
               = fst (snd (connect T (c, log @ [dispatch_call c (request_url c p) m opts]))))"
    by (rule request_calls_exact)
next
  show "authorization (dispatch_call c (request_url c p) m opts)
          = Some (pipeline_authorization opts c)"
    by (rule dispatch_call_pipeline_authorization)
next
  show "authorization
        (dispatch_call
           (fst (snd (connect T (c, log @ [dispatch_call c (request_url c p) m opts]))))
           (request_url c p) m opts)
       = Some (pipeline_authorization opts
                 (fst (snd (connect T (c, log @ [dispatch_call c (request_url c p) m opts])))))"
    by (rule dispatch_call_pipeline_authorization)
next
  show "map_of (rev (caller_headers opts)) ''Authorization'' = None \<longrightarrow>
        pipeline_authorization opts c = ''Bearer '' @ js_to_string (accessToken c)"
    by (simp add: pipeline_authorization_def caller_headers_def)
next
  show "\<forall>v. map_of (rev (caller_headers opts)) ''Authorization'' = Some v \<longrightarrow>
        pipeline_authorization opts c = v"
    by (simp add: pipeline_authorization_def caller_headers_def)
qed

theorem dispatch_authorization_witness:
  "snd (snd (request unauthorized_once ''GET'' ''api/templates'' no_options True
               (example_client (Val (JStr ''t1'')), [])))
     = [dispatch_call (example_client (Val (JStr ''t1'')))
          (request_url (example_client (Val (JStr ''t1''))) ''api/templates'') ''GET'' no_options,
        token_call (example_client (Val (JStr ''t1''))),
        dispatch_call (example_client (Val (JStr ''t2'')))
          (request_url (example_client (Val (JStr ''t1''))) ''api/templates'') ''GET'' no_options]
   \<and> authorization (dispatch_call (example_client (Val (JStr ''t1'')))
          (request_url (example_client (Val (JStr ''t1''))) ''api/templates'') ''GET'' no_options)
       = Some ''Bearer t1''
   \<and> authorization (dispatch_call (example_client (Val (JStr ''t2'')))
          (request_url (example_client (Val (JStr ''t1''))) ''api/templates'') ''GET'' no_options)
       = Some ''Bearer t2''
   \<and> authorization (dispatch_call (example_client (Val (JStr ''t1'')))
          (request_url (example_client (Val (JStr ''t1''))) ''api/templates'') ''GET''
          overriding_options)
       = Some ''Basic evil''"
proof -
  let ?c = "example_client (Val (JStr ''t1''))"
  let ?c2 = "example_client (Val (JStr ''t2''))"
  let ?u = "request_url ?c ''api/templates''"
  let ?d = "dispatch_call ?c ?u ''GET'' no_options"
  have 1: "unauthorized_once [] ?d = Some (failed 401 ''Unauthorized'')"
    by (simp add: unauthorized_once_def scripted_def)
  have 2: "unauthorized_once ([] @ [?d]) (token_call ?c)
             = Some (ok_json (JObj [(''access_token'', JStr ''t2'')]))"
    by (simp add: unauthorized_once_def scripted_def)
  have 3: "connect unauthorized_once (?c, [] @ [?d]) = (Inr (), (?c2, [?d, token_call ?c]))"
    using connect_response [where T = unauthorized_once and log = "[] @ [?d]" and c = ?c, OF 2]
    by (simp add: ok_json_def example_client_def)
  have 4: "snd (snd (request unauthorized_once ''GET'' ''api/templates'' no_options True (?c, [])))
             = [?d, token_call ?c, dispatch_call ?c2 ?u ''GET'' no_options]"
    using request_reauth_ok
            [where T = unauthorized_once and log = "[]" and c = ?c and p = "''api/templates''"
               and m = "''GET''" and opts = no_options, OF example_connected 1 _ 3]
    by (simp add: failed_def)
  have 5: "pipeline_authorization no_options (example_client (Val (JStr t))) = ''Bearer '' @ t"
    "pipeline_authorization overriding_options (example_client (Val (JStr t))) = ''Basic evil''"
    for t
    by (simp_all add: pipeline_authorization_def no_options_def overriding_options_def
        example_client_def)
  have 6: "fst (snd (connect unauthorized_once (?c, [] @ [?d]))) = ?c2"
    using 3 by simp
  note t = dispatch_authorization
         [where T = unauthorized_once and m = "''GET''" and p = "''api/templates''"
            and opts = no_options and retry = True and c = ?c and log = "[]"]
  note t' = dispatch_authorization
         [where T = unauthorized_once and m = "''GET''" and p = "''api/templates''"
            and opts = overriding_options and retry = True and c = ?c and log = "[]"]
  have a: "authorization ?d = Some ''Bearer t1''"
    using t [THEN conjunct2, THEN conjunct1] unfolding 5 by simp
  have b: "authorization (dispatch_call ?c2 ?u ''GET'' no_options) = Some ''Bearer t2''"
    using t [THEN conjunct2, THEN conjunct2, THEN conjunct1] unfolding 6 5 by simp
  have c: "authorization (dispatch_call ?c ?u ''GET'' overriding_options) = Some ''Basic evil''"
    using t' [THEN conjunct2, THEN conjunct1] unfolding 5 by simp
  from 4 a b c show ?thesis by blast
qed

section \<open>Constructor validation\<close>

text \<open>
  Claim C2, as the spec has it: for an input whose grantType is present but not in the enum
  and whose scope is empty, the grant-type-membership error surfaces, not the scope error.
  The constructor checks that the scope is non-empty before it checks the membership of the
  grant type, so this input fails with the scope message.
\<close>

theorem grant_type_before_scope_counterexample:
  "constructor (example_options ''bad'' [] None)
     = Inl (ESignBaseSDKError ''At least one scope must be provided'' None)
   \<and> constructor (example_options ''bad'' [] None)
     \<noteq> Inl (ESignBaseSDKError ''Invalid grant type'' None)"
  by (simp add: constructor_def example_options_def)

text \<open>
  Claim C2, amended: construction fails with the message of the first violated rule in the
  order clientId present, clientSecret present, grantType present, scope present and
  non-empty, grantType a member of the grant-type enum, every scope a member of the Scope
  enum, username and password present when grantType is AUTHORIZATION_CODE; an input that
  violates no rule constructs a client.
\<close>

theorem constructor_first_violation:
  "(\<forall>msg. first_violation opts = Some msg \<longrightarrow> constructor opts = Inl (ESignBaseSDKError msg None))
   \<and> (first_violation opts = None \<longrightarrow> (\<exists>c. constructor opts = Inr c))"
  unfolding first_violation_def validation_rules_def constructor_def array_includes_def
  by (auto simp: falsy_iff list_all_iff split: option.splits)

theorem constructor_first_violation_witness:
  "first_violation (example_options ''bad'' [''invalid''] None) = Some ''Invalid grant type''
   \<and> constructor (example_options ''bad'' [''invalid''] None)
       = Inl (ESignBaseSDKError ''Invalid grant type'' None)
   \<and> first_violation (example_options ''client_credentials'' [''read''] None) = None
   \<and> (\<exists>c. constructor (example_options ''client_credentials'' [''read''] None) = Inr c)"
proof -
  have v: "first_violation (example_options ''bad'' [''invalid''] None) = Some ''Invalid grant type''"
    by (simp add: first_violation_def validation_rules_def example_options_def
        GrantType_values_def GrantType_CLIENT_CREDENTIALS_def GrantType_AUTHORIZATION_CODE_def)
  have n: "first_violation (example_options ''client_credentials'' [''read''] None) = None"
    by (simp add: first_violation_def validation_rules_def example_options_def Scope_values_def
        GrantType_values_def GrantType_CLIENT_CREDENTIALS_def GrantType_AUTHORIZATION_CODE_def)
  from v n constructor_first_violation [of "example_options ''bad'' [''invalid''] None"]
    constructor_first_violation [of "example_options ''client_credentials'' [''read''] None"]
  show ?thesis by blast
qed

section \<open>At most one reauthentication\<close>

text \<open>
  Claim C3, as the spec has it: a 401 response to a call with retry allowed triggers
  exactly one token-exchange call followed by exactly one redispatch. When the token
  exchange fails, its error ends the request and nothing is redispatched.
\<close>

theorem failed_exchange_counterexample:
  "request unauthorized_then_500 ''GET'' ''api/templates'' no_options True
     (example_client (Val (JStr ''t1'')), [])
   = (Inl (ESignBaseSDKError ''boom'' (Some 500)),
      (example_client (Val (JStr ''t1'')),
       [dispatch_call (example_client (Val (JStr ''t1'')))
          (request_url (example_client (Val (JStr ''t1''))) ''api/templates'') ''GET'' no_options,
        token_call (example_client (Val (JStr ''t1'')))]))"
proof -
  let ?c = "example_client (Val (JStr ''t1''))"
  let ?d = "dispatch_call ?c (request_url ?c ''api/templates'') ''GET'' no_options"
  have 1: "unauthorized_then_500 [] ?d = Some (failed 401 ''Unauthorized'')"
    by (simp add: unauthorized_then_500_def scripted_def)
  have 2: "unauthorized_then_500 [?d] (token_call ?c) = Some (failed 500 ''boom'')"
    by (simp add: unauthorized_then_500_def scripted_def)
  have 3: "connect unauthorized_then_500 (?c, [] @ [?d])
             = (Inl (ESignBaseSDKError ''boom'' (Some 500)), (?c, [?d, token_call ?c]))"
    using 2 by (simp add: connect_response http_error_def failed_def)
  show ?thesis
    using request_reauth_failed [OF example_connected 1 _ 3] by (simp add: failed_def)
qed

text \<open>
  Claim C3, amended: whatever the transport answers, a request makes at most three calls:
  its dispatch, then at most one token exchange, then at most one redispatch. A 401
  response to a call with retry allowed triggers exactly one token-exchange call; when the
  exchange fails its error is the result and there is no further call, and when it
  succeeds exactly one redispatch of the same method, URL and body follows. If that
  redispatch is again answered with a (well-formed) 401, the request fails with the
  SDK error of that response, status 401, and no further exchange or dispatch occurs.
\<close>

theorem request_single_reauthentication:
  "(\<exists>new. snd (snd (request T m p opts retry (c, log))) = log @ new
      \<and> (new = []
         \<or> new = [dispatch_call c (request_url c p) m opts]
         \<or> new = [dispatch_call c (request_url c p) m opts, token_call c]
         \<or> new = [dispatch_call c (request_url c p) m opts, token_call c,
                   dispatch_call (fst (snd (request T m p opts retry (c, log))))
                     (request_url c p) m opts]))
   \<and> (isConnected c \<and> T log (dispatch_call c (request_url c p) m opts) = Some r1
        \<and> resp_status r1 = 401 \<longrightarrow>
       (case connect T (c, log @ [dispatch_call c (request_url c p) m opts]) of
          (Inl e, s2) \<Rightarrow>
            request T m p opts True (c, log)
              = (Inl e, (c, log @ [dispatch_call c (request_url c p) m opts, token_call c]))
        | (Inr u, (c2, log2)) \<Rightarrow>
            snd (request T m p opts True (c, log))
              = (c2, log @ [dispatch_call c (request_url c p) m opts, token_call c,
                            dispatch_call c2 (request_url c p) m opts])
            \<and> fc_method (dispatch_call c2 (request_url c p) m opts)
                = fc_method (dispatch_call c (request_url c p) m opts)
            \<and> fc_url (dispatch_call c2 (request_url c p) m opts)
                = fc_url (dispatch_call c (request_url c p) m opts)
            \<and> fc_body (dispatch_call c2 (request_url c p) m opts)
                = fc_body (dispatch_call c (request_url c p) m opts)
            \<and> (\<forall>r2. T (log @ [dispatch_call c (request_url c p) m opts, token_call c])
                        (dispatch_call c2 (request_url c p) m opts) = Some r2
                     \<and> resp_status r2 = 401 \<and> well_formed r2 \<longrightarrow>
                   fst (request T m p opts True (c, log))
                     = Inl (ESignBaseSDKError
                              (case resp_text r2 of Some t \<Rightarrow> t | None \<Rightarrow> ''Unknown error'')
                              (Some 401)))))"
proof (intro conjI impI)
  show "\<exists>new. snd (snd (request T m p opts retry (c, log))) = log @ new
      \<and> (new = []
         \<or> new = [dispatch_call c (request_url c p) m opts]
         \<or> new = [dispatch_call c (request_url c p) m opts, token_call c]
         \<or> new = [dispatch_call c (request_url c p) m opts, token_call c,
                   dispatch_call (fst (snd (request T m p opts retry (c, log))))
                     (request_url c p) m opts])"
    by (rule request_calls)
next
  let ?d1 = "dispatch_call c (request_url c p) m opts"
  assume a: "isConnected c \<and> T log ?d1 = Some r1 \<and> resp_status r1 = 401"
  show "case connect T (c, log @ [?d1]) of
          (Inl e, s2) \<Rightarrow>
            request T m p opts True (c, log) = (Inl e, (c, log @ [?d1, token_call c]))
        | (Inr u, (c2, log2)) \<Rightarrow>
            snd (request T m p opts True (c, log))
              = (c2, log @ [?d1, token_call c, dispatch_call c2 (request_url c p) m opts])
            \<and> fc_method (dispatch_call c2 (request_url c p) m opts) = fc_method ?d1
            \<and> fc_url (dispatch_call c2 (request_url c p) m opts) = fc_url ?d1
            \<and> fc_body (dispatch_call c2 (request_url c p) m opts) = fc_body ?d1
            \<and> (\<forall>r2. T (log @ [?d1, token_call c])
                        (dispatch_call c2 (request_url c p) m opts) = Some r2
                     \<and> resp_status r2 = 401 \<and> well_formed r2 \<longrightarrow>
                   fst (request T m p opts True (c, log))
                     = Inl (ESignBaseSDKError
                              (case resp_text r2 of Some t \<Rightarrow> t | None \<Rightarrow> ''Unknown error'')
                              (Some 401)))"
  proof -
    have nok: "\<not> resp_ok r2" if "resp_status r2 = 401" "well_formed r2" for r2
      using that by (simp add: well_formed_def)
    from connect_cases [of T c "log @ [?d1]"] show ?thesis
    proof (elim disjE exE)
      fix e assume "connect T (c, log @ [?d1]) = (Inl e, (c, (log @ [?d1]) @ [token_call c]))"
      with a show ?thesis by (simp add: request_reauth_failed)
    next
      fix tok
      assume "connect T (c, log @ [?d1])
                = (Inr (), (c\<lparr>accessToken := tok\<rparr>, (log @ [?d1]) @ [token_call c]))"
      with a nok show ?thesis
        by (auto simp: request_reauth_ok dispatch_call_fields handleResponse_failure http_error_def)
    qed
  qed
qed

theorem request_single_reauthentication_witness:
  "request twice_unauthorized ''GET'' ''api/templates'' no_options True
     (example_client (Val (JStr ''t1'')), [])
   = (Inl (ESignBaseSDKError ''Still unauthorized'' (Some 401)),
      (example_client (Val (JStr ''t2'')),
       [dispatch_call (example_client (Val (JStr ''t1'')))
          (request_url (example_client (Val (JStr ''t1''))) ''api/templates'') ''GET'' no_options,
        token_call (example_client (Val (JStr ''t1''))),
        dispatch_call (example_client (Val (JStr ''t2'')))
          (request_url (example_client (Val (JStr ''t1''))) ''api/templates'') ''GET'' no_options]))"
proof -
  let ?c = "example_client (Val (JStr ''t1''))"
  let ?c2 = "example_client (Val (JStr ''t2''))"
  let ?u = "request_url ?c ''api/templates''"
  let ?d = "dispatch_call ?c ?u ''GET'' no_options"
  let ?d2 = "dispatch_call ?c2 ?u ''GET'' no_options"
  have 1: "isConnected ?c \<and> twice_unauthorized [] ?d = Some (failed 401 ''Unauthorized'')
           \<and> resp_status (failed 401 ''Unauthorized'') = 401"
    by (simp add: twice_unauthorized_def scripted_def example_connected failed_def)
  have 2: "twice_unauthorized [?d] (token_call ?c)
             = Some (ok_json (JObj [(''access_token'', JStr ''t2'')]))"
    by (simp add: twice_unauthorized_def scripted_def)
  have 3: "connect twice_unauthorized (?c, [] @ [?d]) = (Inr (), (?c2, [?d, token_call ?c]))"
    using 2 by (simp add: connect_response ok_json_def example_client_def)
  have 4: "twice_unauthorized ([] @ [?d, token_call ?c]) ?d2 = Some (failed 401 ''Still unauthorized'')
           \<and> resp_status (failed 401 ''Still unauthorized'') = 401
           \<and> well_formed (failed 401 ''Still unauthorized'')"
    by (simp add: twice_unauthorized_def scripted_def failed_def well_formed_def)
  from request_single_reauthentication
         [of twice_unauthorized "''GET''" "''api/templates''" no_options True ?c "[]"
             "failed 401 ''Unauthorized''"]
    1 3 4
  have "snd (request twice_unauthorized ''GET'' ''api/templates'' no_options True (?c, []))
          = (?c2, [?d, token_call ?c, ?d2])
        \<and> fst (request twice_unauthorized ''GET'' ''api/templates'' no_options True (?c, []))
          = Inl (ESignBaseSDKError ''Still unauthorized'' (Some 401))"
    by (simp add: failed_def)
  then show ?thesis by (metis prod.collapse)
qed

section \<open>Operations of a client that is not connected\<close>

text \<open>
  Claim C4, as the spec has it: every authenticated operation of a client that is not
  connected fails with the not-connected error. \<open>createDocument\<close> builds its request body
  before it enters the pipeline, so with an invalid date it fails with the RangeError of
  \<^verbatim>\<open>toISOString\<close> instead.
\<close>

theorem invalid_date_counterexample:
  "createDocument (scripted []) (example_input (DateValue None)) (example_client (Val JNull), [])
     = (Inl RangeError, (example_client (Val JNull), []))
   \<and> \<not> isConnected (example_client (Val JNull))
   \<and> \<not> sublist ''not connected'' (message RangeError)"
proof -
  have "createDocument (scripted []) (example_input (DateValue None)) (example_client (Val JNull), [])
     = (Inl RangeError, (example_client (Val JNull), []))"
    by (simp add: createDocument_def createDocument_body_def requestData_def example_input_def
        toISOString_def Let_def)
  moreover have "\<not> isConnected (example_client (Val JNull))"
    by (simp add: isConnected_def example_client_def)
  moreover have "\<not> sublist ''not connected'' (message RangeError)"
    by code_simp
  ultimately show ?thesis by blast
qed

text \<open>
  Claim C4, amended: for a client that is not connected, no authenticated operation makes a
  transport call or changes the client, and each fails. It fails with the not-connected
  error, whose message contains \<open>not connected\<close> and whose statusCode is absent, unless
  its arguments make it throw before the pipeline is entered: a \<open>createDocument\<close> whose
  recipients are missing (TypeError) or whose date is invalid (RangeError), and a
  \<open>getTemplate\<close>, \<open>getDocument\<close>, \<open>downloadDocument\<close> or \<open>deleteDocument\<close> whose
  identifier has a lone surrogate (URIError), fail with that error.
\<close>

theorem not_connected_operations:
  "\<not> isConnected c \<Longrightarrow>
   perform T op (c, log)
     = (Inl (case early_failure op of Some e \<Rightarrow> e | None \<Rightarrow> not_connected), (c, log))
   \<and> (\<forall>e. early_failure op = Some e
          \<longleftrightarrow> (\<exists>inp. op = CreateDocument inp
                    \<and> (recipients inp = None \<and> e = TypeError
                       \<or> recipients inp \<noteq> None \<and> expirationDate inp = DateValue None
                          \<and> e = RangeError))
              \<or> (\<exists>i. (op = GetTemplate i \<or> op = GetDocument i \<or> op = DownloadDocument i
                       \<or> op = DeleteDocument i)
                    \<and> \<not> isWellFormed i \<and> e = URIError))
   \<and> sublist ''not connected'' (message not_connected)
   \<and> statusCode not_connected = None"
  using perform_not_connected [of c T op log] early_failure_iff [of op] not_connected_message
  by (simp add: not_connected_def)

theorem not_connected_operations_witness:
  "perform (scripted []) GetTemplates (example_client (Val JNull), [])
     = (Inl not_connected, (example_client (Val JNull), []))
   \<and> perform (scripted []) (CreateDocument (example_input NoExpiration)) (example_client (Val (JStr [])), [])
     = (Inl not_connected, (example_client (Val (JStr [])), []))
   \<and> perform (scripted []) (GetTemplate (ascii ''doc1'')) (example_client (Val JNull), [])
     = (Inl not_connected, (example_client (Val JNull), []))
   \<and> perform (scripted []) (GetTemplate [0xD800]) (example_client (Val JNull), [])
     = (Inl URIError, (example_client (Val JNull), []))"
proof -
  have 1: "\<not> isConnected (example_client (Val JNull))" "\<not> isConnected (example_client (Val (JStr [])))"
    by (simp_all add: isConnected_def example_client_def)
  have 2: "early_failure (CreateDocument (example_input NoExpiration)) = None"
    by (simp add: createDocument_body_def requestData_def example_input_def Let_def thrown_def)
  have 3: "early_failure (GetTemplate (ascii ''doc1'')) = None"
    "early_failure (GetTemplate [0xD800]) = Some URIError"
    by (simp_all add: encode_doc1 encode_lone_surrogate thrown_def)
  have 4: "early_failure GetTemplates = None"
    by simp
  have a: "perform (scripted []) GetTemplates (example_client (Val JNull), [])
             = (Inl not_connected, (example_client (Val JNull), []))"
    using not_connected_operations
            [OF 1(1), of "scripted []" GetTemplates "[]", THEN conjunct1]
    unfolding 4 by simp
  have b: "perform (scripted []) (CreateDocument (example_input NoExpiration))
               (example_client (Val (JStr [])), [])
             = (Inl not_connected, (example_client (Val (JStr [])), []))"
    using not_connected_operations
            [OF 1(2), of "scripted []" "CreateDocument (example_input NoExpiration)" "[]",
             THEN conjunct1]
    unfolding 2 by simp
  have c: "perform (scripted []) (GetTemplate (ascii ''doc1'')) (example_client (Val JNull), [])
             = (Inl not_connected, (example_client (Val JNull), []))"
    using not_connected_operations
            [OF 1(1), of "scripted []" "GetTemplate (ascii ''doc1'')" "[]", THEN conjunct1]
    unfolding 3 by simp
  have d: "perform (scripted []) (GetTemplate [0xD800]) (example_client (Val JNull), [])
             = (Inl URIError, (example_client (Val JNull), []))"
    using not_connected_operations
            [OF 1(1), of "scripted []" "GetTemplate [0xD800]" "[]", THEN conjunct1]
    unfolding 3 by simp
  from a b c d show ?thesis by blast
qed

section \<open>Normalization of the base URL\<close>

text \<open>
  Claim C5, as the spec has it: no stored baseURL ends with two or more slashes. A baseURL
  that already ends with a slash is stored as it is, with all its trailing slashes.
\<close>

theorem double_slash_counterexample:
  "constructor (example_options ''client_credentials'' [''read''] (Some ''https://api.example.com//''))
     = Inr ((example_client (Val JNull))\<lparr>baseURL := ''https://api.example.com//''\<rparr>)
   \<and> endsWith ''https://api.example.com//'' ''//''"
  by (simp add: constructor_def example_options_def example_client_def normalize_baseURL_def
        endsWith_def array_includes_def GrantType_values_def Scope_values_def
        GrantType_CLIENT_CREDENTIALS_def GrantType_AUTHORIZATION_CODE_def)

text \<open>
  Claim C5, amended: the stored baseURL always ends with a separator. A baseURL without a
  trailing slash gets exactly one appended and then ends with one slash only; a baseURL
  that ends with a slash is stored unchanged.
\<close>

theorem constructor_baseURL:
  "constructor opts = Inr c \<Longrightarrow>
   (let b = (case opt_baseURL opts of None \<Rightarrow> default_baseURL | Some b \<Rightarrow> b)
    in endsWith (baseURL c) ''/''
       \<and> baseURL c = (if endsWith b ''/'' then b else b @ ''/'')
       \<and> (\<not> endsWith b ''/'' \<longrightarrow> \<not> endsWith (baseURL c) ''//''))"
  using constructor_stores_normalized [of opts c] normalize_baseURL_slash appended_slash_single
  by (simp add: Let_def normalize_baseURL_def)

theorem constructor_baseURL_witness:
  "constructor (example_options ''client_credentials'' [''read''] (Some ''https://api.example.com''))
     = Inr ((example_client (Val JNull))\<lparr>baseURL := ''https://api.example.com/''\<rparr>)
   \<and> \<not> endsWith ''https://api.example.com'' ''/''
   \<and> endsWith ''https://api.example.com/'' ''/''
   \<and> \<not> endsWith ''https://api.example.com/'' ''//''"
proof -
  have c: "constructor (example_options ''client_credentials'' [''read''] (Some ''https://api.example.com''))
     = Inr ((example_client (Val JNull))\<lparr>baseURL := ''https://api.example.com/''\<rparr>)"
    by (simp add: constructor_def example_options_def example_client_def normalize_baseURL_def
        endsWith_def array_includes_def GrantType_values_def Scope_values_def
        GrantType_CLIENT_CREDENTIALS_def GrantType_AUTHORIZATION_CODE_def)
  have n: "\<not> endsWith ''https://api.example.com'' ''/''"
    by (simp add: endsWith_def)
  from constructor_baseURL [OF c] c n show ?thesis
    by (simp add: example_options_def Let_def)
qed

section \<open>Failure of the token exchange\<close>

text \<open>
  Claim C6: when the token-exchange call receives a non-success response, \<open>connect\<close> fails
  with an error whose message is the text of the response body, or \<open>Unknown error\<close> when
  the body cannot be read, and whose statusCode is the HTTP status; the client, and with it
  the stored access token, is as it was before. More generally, no failing exchange changes
  the client: the token is only written by an exchange that succeeds.
\<close>

theorem connect_non_success:
  assumes "T log (token_call c) = Some r" and "\<not> resp_ok r"
  shows "connect T (c, log)
           = (Inl (ESignBaseSDKError
                     (case resp_text r of Some m \<Rightarrow> m | None \<Rightarrow> ''Unknown error'')
                     (Some (resp_status r))),
              (c, log @ [token_call c]))
         \<and> (\<forall>T' log' e. fst (connect T' (c, log')) = Inl e \<longrightarrow> fst (snd (connect T' (c, log'))) = c)"
  using assms connect_failure_keeps_client
  by (simp add: connect_response http_error_def)

theorem connect_non_success_witness:
  "connect (scripted [Some (failed 400 ''Bad request'')]) (example_client (Val (JStr ''old'')), [])
     = (Inl (ESignBaseSDKError ''Bad request'' (Some 400)),
        (example_client (Val (JStr ''old'')), [token_call (example_client (Val (JStr ''old'')))]))"
proof -
  have a: "scripted [Some (failed 400 ''Bad request'')] [] (token_call (example_client (Val (JStr ''old''))))
             = Some (failed 400 ''Bad request'')"
    by (simp add: scripted_def)
  have b: "\<not> resp_ok (failed 400 ''Bad request'')"
    by (simp add: failed_def)
  from connect_non_success
         [where T = "scripted [Some (failed 400 ''Bad request'')]" and log = "[]"
            and c = "example_client (Val (JStr ''old''))" and r = "failed 400 ''Bad request''",
          OF a b]
  show ?thesis
    by (simp add: failed_def)
qed

section \<open>Downloads are not retried\<close>

text \<open>
  Claim C7, as the spec has it: on a success response \<open>downloadDocument\<close> returns a byte
  stream wrapping the raw response body. A success response without content has the body
  \<^verbatim>\<open>null\<close>, which \<^verbatim>\<open>Readable.fromWeb\<close> refuses, so the call fails with a TypeError.
\<close>

theorem null_body_counterexample:
  "resp_ok no_content
   \<and> downloadDocument (scripted [Some no_content]) (ascii ''doc1'')
        (example_client (Val (JStr ''t1'')), [])
     = (Inl TypeError,
        (example_client (Val (JStr ''t1'')),
         [dispatch_call (example_client (Val (JStr ''t1'')))
            ''https://app.esignbase.com/api/document/doc1/download'' ''GET'' no_options]))"
proof -
  let ?c = "example_client (Val (JStr ''t1''))"
  have u: "request_url ?c ''api/document/doc1/download''
             = ''https://app.esignbase.com/api/document/doc1/download''"
    by (simp add: request_url_def example_client_def)
  have r: "scripted [Some no_content] []
             (dispatch_call ?c (request_url ?c (''api/document/'' @ ''doc1'' @ ''/download''))
                ''GET'' no_options)
           = Some no_content"
    by (simp add: scripted_def)
  have "\<not> (resp_status no_content = 401 \<and> False)" by simp
  from request_no_retry
         [where T = "scripted [Some no_content]" and log = "[]" and retry = False,
          OF example_connected r this]
  have "request (scripted [Some no_content]) ''GET'' (''api/document/'' @ ''doc1'' @ ''/download'')
          no_options False (?c, [])
        = (Inr no_content,
           (?c, [dispatch_call ?c ''https://app.esignbase.com/api/document/doc1/download''
                   ''GET'' no_options]))"
    by (simp add: u handleResponse_def no_content_def)
  then show ?thesis
    by (simp add: downloadDocument_def encode_doc1 fromWeb_def no_content_def)
qed

text \<open>
  Claim C7, amended: \<open>downloadDocument\<close> never performs the 401
  reauthenticate-and-retry cycle. Whatever the transport answers, it makes at most one
  transport call, the download request itself, and leaves the client as it was, so that
  no token exchange and no redispatch takes place; with an identifier that cannot be
  encoded it makes no call at all. A well-formed response with status 401 makes the call
  fail with the error of that response. A success response with a body gives the stream
  wrapping that raw body, not decoded JSON; a success response whose body is
  \<^verbatim>\<open>null\<close> makes the call fail with a TypeError.
\<close>

theorem downloadDocument_never_retries:
  "(case encodeURIComponent i of
      Inl e \<Rightarrow> downloadDocument T i (c, log) = (Inl e, (c, log))
    | Inr enc \<Rightarrow>
        snd (downloadDocument T i (c, log))
          = (c, log @ (if isConnected c
                       then [dispatch_call c (baseURL c @ ''api/document/'' @ enc @ ''/download'')
                               ''GET'' no_options]
                       else []))
        \<and> dispatch_call c (baseURL c @ ''api/document/'' @ enc @ ''/download'')
             ''GET'' no_options \<noteq> token_call c
        \<and> (isConnected c
             \<and> T log (dispatch_call c (baseURL c @ ''api/document/'' @ enc @ ''/download'')
                        ''GET'' no_options) = Some r
             \<longrightarrow> (resp_status r = 401 \<and> well_formed r \<longrightarrow>
                    fst (downloadDocument T i (c, log))
                      = Inl (ESignBaseSDKError
                               (case resp_text r of Some t \<Rightarrow> t | None \<Rightarrow> ''Unknown error'')
                               (Some 401)))
               \<and> (resp_ok r \<longrightarrow>
                    fst (downloadDocument T i (c, log))
                      = (case resp_body r of
                           Some bytes \<Rightarrow> Inr (Readable_fromWeb bytes)
                         | None \<Rightarrow> Inl TypeError))))"
proof (cases "encodeURIComponent i")
  case (Inl e)
  then show ?thesis by (simp add: downloadDocument_def)
next
  case (Inr enc)
  let ?p = "''api/document/'' @ enc @ ''/download''"
  let ?d = "dispatch_call c (baseURL c @ ?p) ''GET'' no_options"
  have a: "snd (downloadDocument T i (c, log)) = (c, log @ (if isConnected c then [?d] else []))"
  proof (cases "isConnected c")
    case False
    then show ?thesis by (simp add: downloadDocument_def Inr request_not_connected)
  next
    case True
    show ?thesis
    proof (cases "T log ?d")
      case None
      with True show ?thesis
        using request_rejected [of c T log ?p "''GET''" no_options False]
        by (simp add: downloadDocument_def Inr request_url_def)
    next
      case (Some r)
      with True show ?thesis
        using request_no_retry [of c T log ?p "''GET''" no_options r False]
        by (simp add: downloadDocument_def Inr request_url_def split: sum.splits)
    qed
  qed
  have b: "?d \<noteq> token_call c"
  proof
    assume "?d = token_call c"
    then have "fc_method ?d = fc_method (token_call c)" by simp
    then show False by (simp add: dispatch_call_def token_call_def Let_def)
  qed
  have c: "fst (downloadDocument T i (c, log)) = Inl (http_error r)"
    if "isConnected c" "T log ?d = Some r" "\<not> resp_ok r" for r
    using that request_no_retry [of c T log ?p "''GET''" no_options r False]
    by (simp add: downloadDocument_def Inr request_url_def handleResponse_failure)
  have d: "fst (downloadDocument T i (c, log)) = fromWeb (resp_body r)"
    if "isConnected c" "T log ?d = Some r" "resp_ok r" for r
    using that request_no_retry [of c T log ?p "''GET''" no_options r False]
    by (simp add: downloadDocument_def Inr request_url_def handleResponse_success)
  have e: "\<not> resp_ok r" if "resp_status r = 401" "well_formed r"
    using that by (simp add: well_formed_def)
  show ?thesis
    using Inr a b c [of r] d [of r] e
    by (auto simp: http_error_def fromWeb_def split: option.splits)
qed

theorem downloadDocument_never_retries_witness:
  "downloadDocument (scripted [Some (failed 401 ''Unauthorized'')]) (ascii ''doc1'')
     (example_client (Val (JStr ''t1'')), [])
   = (Inl (ESignBaseSDKError ''Unauthorized'' (Some 401)),
      (example_client (Val (JStr ''t1'')),
       [dispatch_call (example_client (Val (JStr ''t1'')))
          ''https://app.esignbase.com/api/document/doc1/download'' ''GET'' no_options]))
   \<and> fst (downloadDocument (scripted [Some pdf_response]) (ascii ''doc1'')
            (example_client (Val (JStr ''t1'')), []))
     = Inr (Readable_fromWeb ''%PDF-1.7'')
   \<and> downloadDocument (scripted [Some pdf_response]) [0xD800]
        (example_client (Val (JStr ''t1'')), [])
     = (Inl URIError, (example_client (Val (JStr ''t1'')), []))"
proof -
  let ?c = "example_client (Val (JStr ''t1''))"
  let ?d = "dispatch_call ?c (baseURL ?c @ ''api/document/'' @ ''doc1'' @ ''/download'')
              ''GET'' no_options"
  have u: "baseURL ?c @ ''api/document/'' @ ''doc1'' @ ''/download''
            = ''https://app.esignbase.com/api/document/doc1/download''"
    by (simp add: example_client_def)
  have 1: "isConnected ?c \<and> scripted [Some (failed 401 ''Unauthorized'')] [] ?d = Some (failed 401 ''Unauthorized'')"
    by (simp add: example_connected scripted_def)
  have 2: "resp_status (failed 401 ''Unauthorized'') = 401 \<and> well_formed (failed 401 ''Unauthorized'')"
    by (simp add: failed_def well_formed_def)
  have 3: "isConnected ?c \<and> scripted [Some pdf_response] [] ?d = Some pdf_response"
    by (simp add: example_connected scripted_def)
  have 4: "resp_ok pdf_response" "resp_body pdf_response = Some ''%PDF-1.7''"
    by (simp_all add: pdf_response_def)
  have a: "snd (downloadDocument (scripted [Some (failed 401 ''Unauthorized'')]) (ascii ''doc1'') (?c, []))
             = (?c, [?d])
           \<and> fst (downloadDocument (scripted [Some (failed 401 ''Unauthorized'')]) (ascii ''doc1'') (?c, []))
             = Inl (ESignBaseSDKError ''Unauthorized'' (Some 401))"
    using downloadDocument_never_retries
            [where i = "ascii ''doc1''" and T = "scripted [Some (failed 401 ''Unauthorized'')]"
               and c = ?c and log = "[]" and r = "failed 401 ''Unauthorized''"] 1 2
    by (simp add: failed_def encode_doc1)
  have b: "fst (downloadDocument (scripted [Some pdf_response]) (ascii ''doc1'') (?c, []))
             = Inr (Readable_fromWeb ''%PDF-1.7'')"
    using downloadDocument_never_retries
            [where i = "ascii ''doc1''" and T = "scripted [Some pdf_response]"
               and c = ?c and log = "[]" and r = pdf_response] 3 4
    by (simp add: encode_doc1)
  have c: "downloadDocument (scripted [Some pdf_response]) [0xD800] (?c, [])
             = (Inl URIError, (?c, []))"
    using downloadDocument_never_retries
            [where i = "[0xD800]" and T = "scripted [Some pdf_response]"
               and c = ?c and log = "[]" and r = pdf_response]
    by (simp add: encode_lone_surrogate)
  from a b c show ?thesis
    unfolding u by (metis prod.collapse)
qed

section \<open>The expiration date in the body of createDocument\<close>

text \<open>
  Claim C8, as the spec has it: for every \<open>createDocument\<close> input the serialized request
  body contains the key \<open>expiration_date\<close> if and only if a date was supplied. An invalid
  \<^verbatim>\<open>Date\<close> is a date that was supplied, but it has no ISO-8601 serialization:
  \<^verbatim>\<open>toISOString\<close> throws, no body is serialized and nothing is sent, connected or not.
\<close>

theorem invalid_expiration_counterexample:
  "expirationDate (example_input (DateValue None)) = DateValue None
   \<and> createDocument_body (example_input (DateValue None)) = Inl RangeError
   \<and> createDocument (scripted [Some (ok_json (JObj []))]) (example_input (DateValue None))
        (example_client (Val (JStr ''t1'')), [])
     = (Inl RangeError, (example_client (Val (JStr ''t1'')), []))"
  by (simp add: createDocument_def createDocument_body_def requestData_def example_input_def
      toISOString_def Let_def)

text \<open>
  Claim C8, amended: whenever \<open>createDocument\<close> serializes a request body, the body
  contains the key \<open>expiration_date\<close> if and only if \<open>expirationDate\<close> is a
  \<^verbatim>\<open>Date\<close>, its value then is the ISO-8601 string of that date, and an input without
  \<open>expirationDate\<close> gives a body without the key; this body is the one the pipeline
  dispatches. No body is serialized exactly when \<open>recipients\<close> is missing, where the
  method fails with a TypeError, or the date is invalid, where it fails with a RangeError;
  in both cases nothing is sent.
\<close>

theorem createDocument_expiration_date:
  "(case createDocument_body inp of
      Inl e \<Rightarrow>
        (recipients inp = None \<and> e = TypeError
         \<or> recipients inp \<noteq> None \<and> expirationDate inp = DateValue None \<and> e = RangeError)
        \<and> createDocument T inp (c, log) = (Inl e, (c, log))
    | Inr b \<Rightarrow>
        (\<exists>kvs. b = JObj kvs
           \<and> (map_of kvs ''expiration_date'' \<noteq> None \<longleftrightarrow> (\<exists>d. expirationDate inp = DateValue d))
           \<and> (\<forall>t. expirationDate inp = DateValue (Some t)
                 \<longrightarrow> map_of kvs ''expiration_date'' = Some (JStr (iso_string t)))
           \<and> (expirationDate inp = NoExpiration \<longrightarrow> map_of kvs ''expiration_date'' = None))
        \<and> (isConnected c \<longrightarrow>
             (\<exists>rest. snd (snd (createDocument T inp (c, log)))
                       = log @ dispatch_call c (baseURL c @ ''api/document'') ''POST''
                                 (json_options b) # rest)
             \<and> fc_body (dispatch_call c (baseURL c @ ''api/document'') ''POST'' (json_options b))
                 = Some (JSON_text b)))"
proof (cases "createDocument_body inp")
  case (Inl e)
  then have "recipients inp = None \<and> e = TypeError
             \<or> recipients inp \<noteq> None \<and> expirationDate inp = DateValue None \<and> e = RangeError"
    by (simp add: createDocument_body_failure)
  moreover have "createDocument T inp (c, log) = (Inl e, (c, log))"
    using Inl by (simp add: createDocument_def)
  ultimately show ?thesis using Inl by simp
next
  case (Inr b)
  from createDocument_body_expiration [OF Inr] obtain kvs where
    kvs: "b = JObj kvs"
      "map_of kvs ''expiration_date''
         = (case expirationDate inp of DateValue (Some t) \<Rightarrow> Some (JStr (iso_string t)) | _ \<Rightarrow> None)"
    by blast
  have valid: "expirationDate inp \<noteq> DateValue None"
    using Inr createDocument_body_failure [of inp RangeError] createDocument_body_failure [of inp TypeError]
    by (cases "recipients inp") auto
  have 1: "map_of kvs ''expiration_date'' \<noteq> None \<longleftrightarrow> (\<exists>d. expirationDate inp = DateValue d)"
    using kvs(2) valid by (auto split: expiration.splits option.splits)
  have 2: "\<forall>t. expirationDate inp = DateValue (Some t)
                 \<longrightarrow> map_of kvs ''expiration_date'' = Some (JStr (iso_string t))"
    using kvs(2) by simp
  have 3: "expirationDate inp = NoExpiration \<longrightarrow> map_of kvs ''expiration_date'' = None"
    using kvs(2) by simp
  have 4: "fc_body (dispatch_call c (baseURL c @ ''api/document'') ''POST'' (json_options b))
             = Some (JSON_text b)"
    by (simp add: dispatch_call_def json_options_def)
  show ?thesis
    using Inr kvs(1) 1 2 3 4 createDocument_first_call [OF Inr, of c T log] by simp
qed

theorem createDocument_expiration_date_witness:
  "createDocument_body (example_input (DateValue (Some 1577836800000)))
     = Inr (JObj [(''name'', JStr ''Doc''), (''template_id'', JStr ''tpl''),
                  (''recipients'', JArr [JObj [(''email'', JStr ''a@a.com''), (''first_name'', JStr ''A''),
                     (''last_name'', JStr ''B''), (''role_name'', JStr ''r''), (''locale'', JStr ''en'')]]),
                  (''expiration_date'', JStr ''2020-01-01T00:00:00.000Z'')])
   \<and> createDocument_body (example_input (DateValue (Some 0)))
     = Inr (JObj [(''name'', JStr ''Doc''), (''template_id'', JStr ''tpl''),
                  (''recipients'', JArr [JObj [(''email'', JStr ''a@a.com''), (''first_name'', JStr ''A''),
                     (''last_name'', JStr ''B''), (''role_name'', JStr ''r''), (''locale'', JStr ''en'')]]),
                  (''expiration_date'', JStr ''1970-01-01T00:00:00.000Z'')])
   \<and> createDocument_body (example_input (DateValue (Some (- 1))))
     = Inr (JObj [(''name'', JStr ''Doc''), (''template_id'', JStr ''tpl''),
                  (''recipients'', JArr [JObj [(''email'', JStr ''a@a.com''), (''first_name'', JStr ''A''),
                     (''last_name'', JStr ''B''), (''role_name'', JStr ''r''), (''locale'', JStr ''en'')]]),
                  (''expiration_date'', JStr ''1969-12-31T23:59:59.999Z'')])
   \<and> createDocument_body (example_input (DateValue (Some 951827696789)))
     = Inr (JObj [(''name'', JStr ''Doc''), (''template_id'', JStr ''tpl''),
                  (''recipients'', JArr [JObj [(''email'', JStr ''a@a.com''), (''first_name'', JStr ''A''),
                     (''last_name'', JStr ''B''), (''role_name'', JStr ''r''), (''locale'', JStr ''en'')]]),
                  (''expiration_date'', JStr ''2000-02-29T12:34:56.789Z'')])
   \<and> createDocument_body (example_input NoExpiration)
     = Inr (JObj [(''name'', JStr ''Doc''), (''template_id'', JStr ''tpl''),
                  (''recipients'', JArr [JObj [(''email'', JStr ''a@a.com''), (''first_name'', JStr ''A''),
                     (''last_name'', JStr ''B''), (''role_name'', JStr ''r''), (''locale'', JStr ''en'')]])])
   \<and> createDocument_body (example_input (DateValue None)) = Inl RangeError"
proof -
  let ?c = "example_client (Val (JStr ''t1''))"
  have body: "createDocument_body (example_input e)
     = (case e of
          DateValue None \<Rightarrow> Inl RangeError
        | _ \<Rightarrow> Inr (JObj ([(''name'', JStr ''Doc''), (''template_id'', JStr ''tpl''),
                  (''recipients'', JArr [JObj [(''email'', JStr ''a@a.com''), (''first_name'', JStr ''A''),
                     (''last_name'', JStr ''B''), (''role_name'', JStr ''r''), (''locale'', JStr ''en'')]])]
                  @ (case map_of (case createDocument_body (example_input e) of
                                    Inr (JObj kvs) \<Rightarrow> kvs | _ \<Rightarrow> []) ''expiration_date'' of
                       None \<Rightarrow> [] | Some v \<Rightarrow> [(''expiration_date'', v)]))))" for e
    by (simp add: createDocument_body_def requestData_def example_input_def toISOString_def
        recipient_object_def Let_def split: expiration.splits option.splits)
  have d: "expirationDate (example_input e) = e" "recipients (example_input e) \<noteq> None" for e
    by (simp_all add: example_input_def)
  have present: "map_of (case createDocument_body (example_input (DateValue (Some t))) of
                         Inr (JObj kvs) \<Rightarrow> kvs | _ \<Rightarrow> []) ''expiration_date''
                 = Some (JStr (iso_string t))" for t
    using createDocument_expiration_date
            [where inp = "example_input (DateValue (Some t))" and c = ?c and T = "scripted []"
               and log = "[]"]
    by (cases "createDocument_body (example_input (DateValue (Some t)))") (auto simp: d)
  have absent: "map_of (case createDocument_body (example_input NoExpiration) of
                         Inr (JObj kvs) \<Rightarrow> kvs | _ \<Rightarrow> []) ''expiration_date'' = None"
    using createDocument_expiration_date
            [where inp = "example_input NoExpiration" and c = ?c and T = "scripted []"
               and log = "[]"]
    by (cases "createDocument_body (example_input NoExpiration)") (auto simp: d)
  show ?thesis
    using body [of "DateValue (Some 1577836800000)"] body [of "DateValue (Some 0)"]
      body [of "DateValue (Some (- 1))"] body [of "DateValue (Some 951827696789)"]
      body [of NoExpiration] body [of "DateValue None"]
    by (simp add: present absent iso_2020 iso_epoch iso_before_epoch iso_leap_day)
qed

section \<open>The token of the redispatch\<close>



section \<open>A token exchange that yields no token\<close>




end
